theory Spec2Isabelle
  imports Complex_Main "HOL-Library.Sublist"
begin

section \<open>Data model (models.py)\<close>

text \<open>
  Python's unbounded \<open>int\<close> is \<open>int\<close>. Python's \<open>float\<close> is modelled by \<open>real\<close>: scores are
  computed in exact arithmetic. The one place where the binary rounding of floats shows at
  the precision of a score, the direction of \<open>round(x, 2)\<close> at a tie, is left open (see
  \<open>round2\<close>). Strings are \<open>string\<close>, read as ASCII text.
\<close>

text \<open>
  A \<open>datetime\<close> is its calendar fields, kept as the number of seconds \<open>wall\<close> those
  fields denote when read as UTC, and its \<open>tzinfo\<close>, kept as the offset from UTC in
  seconds: \<open>None\<close> for a naive value. A clock reading \<open>datetime.now(timezone.utc)\<close> is
  an instant, a \<open>real\<close> number of seconds.
\<close>

record datetime =
  wall :: real
  utcoffset :: "real option"

datatype TrendSource =
  REDDIT | GOOGLE_TRENDS | HACKER_NEWS | PRODUCT_HUNT | RSS_FEED | TWITTER | LINKEDIN | NEWS_API

datatype ContentCategory =
  SEO | SOCIAL_MEDIA | EMAIL_MARKETING | CONTENT_MARKETING | PAID_ADS | ANALYTICS | BRANDING
  | GROWTH_HACKING | INFLUENCER | VIDEO_MARKETING | AI_MARKETING | ECOMMERCE | B2B | STARTUP
  | GENERAL

text \<open>
  The fields of \<open>Topic\<close>, in the order of the class. The field \<open>id\<close> is called \<open>topic_id\<close> and
  the field \<open>keywords\<close> is called \<open>topic_keywords\<close>, since both names are taken in Isabelle.
  Equality of records is field-wise, as the \<open>==\<close> of a pydantic model is.
\<close>

record Topic =
  topic_id :: "string option"
  title :: string
  description :: "string option"
  url :: "string option"
  source :: TrendSource
  category :: ContentCategory
  score :: int
  comments :: int
  shares :: int
  views :: int
  virality_score :: real
  trending_velocity :: real
  topic_keywords :: "string list"
  hashtags :: "string list"
  author :: "string option"
  published_at :: "datetime option"
  discovered_at :: datetime
  content_angle :: "string option"
  target_audience :: "string option"

text \<open>
  \<open>ResearchSession\<close>; \<open>filters_applied\<close> is the dictionary with the two keys
  \<open>"categories"\<close> and \<open>"min_score"\<close> that \<open>research_trending\<close> stores, kept as a pair.
\<close>

record ResearchSession =
  session_id :: "string option"
  started_at :: real
  completed_at :: "real option"
  topics_discovered :: int
  topics_curated :: int
  briefs_generated :: int
  sources_queried :: "TrendSource list"
  filters_applied :: "ContentCategory list \<times> real"

section \<open>Python helpers\<close>

text \<open>\<open>str.lower\<close> on ASCII text: the letters A to Z move to a to z, nothing else changes.\<close>

definition lower_char :: "char \<Rightarrow> char" where
  "lower_char c =
     (case map_of (zip ''ABCDEFGHIJKLMNOPQRSTUVWXYZ'' ''abcdefghijklmnopqrstuvwxyz'') c of
        Some l \<Rightarrow> l
      | None \<Rightarrow> c)"

definition lower :: "string \<Rightarrow> string" where
  "lower s = map lower_char s"

text \<open>
  The characters \<open>str.split()\<close> without argument separates at: tab, line feed, vertical tab,
  form feed, carriage return, the four separators 28 to 31, and the space.
\<close>

definition is_space :: "char \<Rightarrow> bool" where
  "is_space c =
     (c \<in> set [CHR 0x09, CHR 0x0A, CHR 0x0B, CHR 0x0C, CHR 0x0D,
               CHR 0x1C, CHR 0x1D, CHR 0x1E, CHR 0x1F, CHR 0x20])"

text \<open>
  \<open>str.split()\<close>: the maximal runs of non-space characters, in order. \<open>cur\<close> holds the
  characters of the current word; an empty word is never emitted.
\<close>

fun split_from :: "string \<Rightarrow> string \<Rightarrow> string list" where
  "split_from cur [] = (if cur = [] then [] else [cur])"
| "split_from cur (c # cs) =
     (if is_space c then (if cur = [] then split_from [] cs else cur # split_from [] cs)
      else split_from (cur @ [c]) cs)"

definition split :: "string \<Rightarrow> string list" where
  "split s = split_from [] s"

text \<open>\<open>kw in text\<close> on strings: \<open>kw\<close> occurs as a contiguous piece of \<open>text\<close>.\<close>

fun contains :: "string \<Rightarrow> string \<Rightarrow> bool" where
  "contains kw [] = (kw = [])"
| "contains kw (c # cs) = (prefix kw (c # cs) \<or> contains kw cs)"

text \<open>
  \<open>round(x, 2)\<close>: the nearest multiple of one hundredth. When the exact value lies
  halfway between two multiples, the multiple the code returns depends on the binary rounding
  errors of the float it rounds (35.175 computed in floats may lie just below or just above
  the halfway point), which exact arithmetic does not see; the direction taken at a tie is
  therefore the argument \<open>up\<close>, and nothing is assumed about it.
\<close>

definition round2 :: "bool \<Rightarrow> real \<Rightarrow> real" where
  "round2 up x =
     (let y = x * 100; f = \<lfloor>y\<rfloor>; d = y - of_int f
      in (if d < 1 / 2 then of_int f
          else if 1 / 2 < d then of_int (f + 1)
          else if up then of_int (f + 1) else of_int f) / 100)"

text \<open>
  \<open>xs[:limit]\<close> for any integer \<open>limit\<close>: a negative \<open>limit\<close> counts from the end of the
  list, so \<open>xs[:-1]\<close> drops the last element.
\<close>

definition slice_to :: "'a list \<Rightarrow> int \<Rightarrow> 'a list" where
  "slice_to xs limit =
     (if 0 \<le> limit then take (nat limit) xs else take (nat (int (length xs) + limit)) xs)"

section \<open>The curator (curator.py)\<close>

record ContentCurator =
  min_score :: real
  max_age_hours :: int
  boost_categories :: "ContentCategory list"

text \<open>
  The constructor: \<open>boost_categories or [...]\<close> replaces both \<open>None\<close> and the empty list by
  the three default categories.
\<close>

definition new_ContentCurator ::
  "real \<Rightarrow> int \<Rightarrow> ContentCategory list option \<Rightarrow> ContentCurator" where
  "new_ContentCurator ms age boost =
     \<lparr> min_score = ms, max_age_hours = age,
       boost_categories =
         (case boost of None \<Rightarrow> [AI_MARKETING, GROWTH_HACKING, SEO]
          | Some bs \<Rightarrow> if bs = [] then [AI_MARKETING, GROWTH_HACKING, SEO] else bs) \<rparr>"

definition default_curator :: ContentCurator where
  "default_curator = new_ContentCurator 30 72 None"

definition WEIGHTS :: "(string \<times> real) list" where
  "WEIGHTS =
     [(''engagement'', 25 / 100), (''recency'', 20 / 100), (''relevance'', 25 / 100),
      (''velocity'', 15 / 100), (''uniqueness'', 15 / 100)]"

definition HIGH_VALUE_KEYWORDS :: "string list" where
  "HIGH_VALUE_KEYWORDS =
     [''ai'', ''chatgpt'', ''automation'', ''no-code'', ''growth'',
      ''viral'', ''10x'', ''secret'', ''strategy'', ''hack'',
      ''free'', ''tool'', ''template'', ''guide'', ''case study'',
      ''revenue'', ''million'', ''scaling'', ''framework'', ''playbook'']"

definition TRENDING_INDICATORS :: "string list" where
  "TRENDING_INDICATORS =
     [''just launched'', ''new'', ''breaking'', ''update'', ''2024'', ''2025'',
      ''announcement'', ''release'', ''introducing'', ''first'']"

subsection \<open>The five factors\<close>

text \<open>
  \<open>calculate_engagement_score\<close>: each channel adds its capped share only when its count is
  positive; \<open>/\<close> is Python's true division.
\<close>

definition calculate_engagement_score :: "Topic \<Rightarrow> real" where
  "calculate_engagement_score topic =
     (let s0 = (0::real);
          s1 = (if score topic > 0 then s0 + min (of_int (score topic) / 50) 40 else s0);
          s2 = (if comments topic > 0 then s1 + min (of_int (comments topic) / 25) 30 else s1);
          s3 = (if shares topic > 0 then s2 + min (of_int (shares topic) / 10) 30 else s2)
      in min s3 100)"

text \<open>
  \<open>d.replace(tzinfo=timezone.utc)\<close> keeps the calendar fields and sets the offset to 0.
  \<open>(now - d).total_seconds() / 3600\<close> for an aware \<open>d\<close> is the distance between the two
  instants in hours; the code subtracts aware values only.
\<close>

definition replace_tzinfo_utc :: "datetime \<Rightarrow> datetime" where
  "replace_tzinfo_utc d = d\<lparr>utcoffset := Some 0\<rparr>"

definition hours_since :: "real \<Rightarrow> datetime \<Rightarrow> real" where
  "hours_since now d =
     (now - (wall d - (case utcoffset d of Some off \<Rightarrow> off | None \<Rightarrow> 0))) / 3600"

text \<open>
  \<open>published\<close> as recency and velocity compute it: a naive timestamp gets the UTC zone,
  an aware one is taken as it is.
\<close>

definition published_aware :: "datetime \<Rightarrow> datetime" where
  "published_aware d = (if utcoffset d = None then replace_tzinfo_utc d else d)"

definition calculate_recency_score :: "real \<Rightarrow> Topic \<Rightarrow> real" where
  "calculate_recency_score now topic =
     (case published_at topic of
        None \<Rightarrow> 30
      | Some p \<Rightarrow>
          (let published = published_aware p;
               hours_old = hours_since now published
           in if hours_old < 2 then 100
              else if hours_old < 6 then 90
              else if hours_old < 12 then 80
              else if hours_old < 24 then 70
              else if hours_old < 48 then 50
              else if hours_old < 72 then 30
              else 10))"

definition calculate_relevance_score :: "ContentCurator \<Rightarrow> Topic \<Rightarrow> real" where
  "calculate_relevance_score self topic =
     (let title_lower = lower (title topic);
          desc_lower = lower (case description topic of None \<Rightarrow> [] | Some d \<Rightarrow> d);
          text = title_lower @ '' '' @ desc_lower;
          keyword_matches = int (length (filter (\<lambda>kw. contains kw text) HIGH_VALUE_KEYWORDS));
          s1 = 50 + min (keyword_matches * 5) 30;
          trending_matches = int (length (filter (\<lambda>ind. contains ind text) TRENDING_INDICATORS));
          s2 = s1 + min (trending_matches * 5) 15;
          s3 = (if category topic \<in> set (boost_categories self) then s2 + 10 else s2);
          s4 = (if topic_keywords topic \<noteq> []
                then s3 + min (int (length (topic_keywords topic)) * 2) 10 else s3)
      in of_int (min s4 100))"

definition calculate_velocity_score :: "real \<Rightarrow> Topic \<Rightarrow> real" where
  "calculate_velocity_score now topic =
     (if trending_velocity topic > 0 then min (trending_velocity topic) 100
      else case published_at topic of
        None \<Rightarrow> 40
      | Some p \<Rightarrow>
          (let published = published_aware p;
               hours_old = max (hours_since now published) 1;
               engagement_rate = of_int (score topic + comments topic * 2) / hours_old
           in if engagement_rate > 50 then 100
              else if engagement_rate > 25 then 80
              else if engagement_rate > 10 then 60
              else if engagement_rate > 5 then 40
              else 20))"

text \<open>The word set of a title: \<open>set(topic.title.lower().split())\<close>.\<close>

definition title_words :: "Topic \<Rightarrow> string set" where
  "title_words topic = set (split (lower (title topic)))"

text \<open>
  The overlap \<open>calculate_uniqueness_score\<close> computes for one entry of the batch: the size
  of the intersection divided by the size of the scored topic's own word set (at least 1).
\<close>

definition uniqueness_overlap :: "Topic \<Rightarrow> Topic \<Rightarrow> real" where
  "uniqueness_overlap topic existing =
     real (card (title_words topic \<inter> title_words existing))
     / real (max (card (title_words topic)) 1)"

text \<open>
  The loop of \<open>calculate_uniqueness_score\<close>: \<open>max_overlap\<close> is threaded through the batch,
  and an entry with the id of the scored topic is skipped (\<open>continue\<close>).
\<close>

fun uniqueness_loop :: "Topic \<Rightarrow> real \<Rightarrow> Topic list \<Rightarrow> real" where
  "uniqueness_loop topic max_overlap [] = max_overlap"
| "uniqueness_loop topic max_overlap (existing # rest) =
     (if topic_id existing = topic_id topic then uniqueness_loop topic max_overlap rest
      else uniqueness_loop topic (max max_overlap (uniqueness_overlap topic existing)) rest)"

text \<open>
  \<open>existing_topics\<close> is \<open>None\<close> by default; \<open>not existing_topics\<close> holds for \<open>None\<close> and for
  the empty list.
\<close>

definition calculate_uniqueness_score :: "Topic \<Rightarrow> Topic list option \<Rightarrow> real" where
  "calculate_uniqueness_score topic existing_topics =
     (case existing_topics of
        None \<Rightarrow> 70
      | Some ex \<Rightarrow>
          if ex = [] then 70
          else max (100 - uniqueness_loop topic 0 ex * 100) 10)"

subsection \<open>The weighted score\<close>

text \<open>
  \<open>score_topic\<close> builds the dictionary of the five factor scores and sums
  \<open>scores[key] * WEIGHTS[key]\<close> over its keys, in insertion order. The sum is taken
  exactly; \<open>tie\<close> tells, for each dictionary of scores, which way the code's float sum
  falls when the exact sum is halfway between two hundredths. Every statement below holds
  for every \<open>tie\<close>.
\<close>

type_synonym tie_direction = "(string \<times> real) list \<Rightarrow> bool"

definition factor_scores ::
  "ContentCurator \<Rightarrow> real \<Rightarrow> Topic \<Rightarrow> Topic list option \<Rightarrow> (string \<times> real) list" where
  "factor_scores self now topic existing_topics =
     [(''engagement'', calculate_engagement_score topic),
      (''recency'', calculate_recency_score now topic),
      (''relevance'', calculate_relevance_score self topic),
      (''velocity'', calculate_velocity_score now topic),
      (''uniqueness'', calculate_uniqueness_score topic existing_topics)]"

definition weight_of :: "string \<Rightarrow> real" where
  "weight_of key = (case map_of WEIGHTS key of Some w \<Rightarrow> w | None \<Rightarrow> 0)"

definition score_topic ::
  "tie_direction \<Rightarrow> ContentCurator \<Rightarrow> real \<Rightarrow> Topic \<Rightarrow> Topic list option \<Rightarrow> real" where
  "score_topic tie self now topic existing_topics =
     (let scores = factor_scores self now topic existing_topics;
          final_score = sum_list (map (\<lambda>(key, v). v * weight_of key) scores)
      in round2 (tie scores) final_score)"

subsection \<open>Scoring a batch in place\<close>

text \<open>
  \<open>for topic in topics: topic.virality_score = self.score_topic(topic, topics)\<close> writes
  the score into the record at each position in turn; the batch handed to \<open>score_topic\<close> at
  position \<open>i\<close> is the list as it stands then, the earlier positions already rescored.
\<close>

definition score_at ::
  "tie_direction \<Rightarrow> ContentCurator \<Rightarrow> real \<Rightarrow> Topic list \<Rightarrow> nat \<Rightarrow> Topic list" where
  "score_at tie self now topics i =
     topics[i := (topics ! i)\<lparr>virality_score := score_topic tie self now (topics ! i) (Some topics)\<rparr>]"

definition score_all ::
  "tie_direction \<Rightarrow> ContentCurator \<Rightarrow> real \<Rightarrow> Topic list \<Rightarrow> Topic list" where
  "score_all tie self now topics = fold (\<lambda>i ts. score_at tie self now ts i) [0..<length topics] topics"

subsection \<open>Curation\<close>

text \<open>
  \<open>curate_topics\<close>, step by step as in the source. \<open>if categories:\<close> is false for \<open>None\<close>
  and for the empty list. The age filter replaces the zone of every timestamp by UTC, aware
  or not. \<open>list.sort(key=..., reverse=True)\<close> is a stable sort into
  descending key order: topics of equal score keep their order; it is modelled by the stable
  insertion sort on the negated key.
\<close>

definition curate_topics ::
  "tie_direction \<Rightarrow> ContentCurator \<Rightarrow> real \<Rightarrow> Topic list \<Rightarrow> int \<Rightarrow> ContentCategory list option \<Rightarrow> real option
   \<Rightarrow> Topic list" where
  "curate_topics tie self now topics limit categories min_score_arg =
     (let ms = (case min_score_arg of Some m \<Rightarrow> m | None \<Rightarrow> min_score self);
          by_category = (case categories of
                           None \<Rightarrow> topics
                         | Some cs \<Rightarrow> if cs \<noteq> [] then filter (\<lambda>t. category t \<in> set cs) topics
                                      else topics);
          by_age = filter (\<lambda>t. case published_at t of
                                  None \<Rightarrow> True
                                | Some p \<Rightarrow> hours_since now (replace_tzinfo_utc p)
                                            \<le> of_int (max_age_hours self))
                     by_category;
          scored = score_all tie self now by_age;
          by_score = filter (\<lambda>t. ms \<le> virality_score t) scored;
          sorted_topics = sort_key (\<lambda>t. - virality_score t) by_score
      in slice_to sorted_topics limit)"

subsection \<open>Deduplication\<close>

text \<open>The overlap \<open>deduplicate_topics\<close> computes for a pair: intersection over union.\<close>

definition dedup_overlap :: "Topic \<Rightarrow> Topic \<Rightarrow> real" where
  "dedup_overlap topic existing =
     real (card (title_words topic \<inter> title_words existing))
     / real (max (card (title_words topic \<union> title_words existing)) 1)"

text \<open>
  The inner loop over \<open>unique_topics\<close>: \<open>todo\<close> is the part of the accepted list still to be
  compared. At the first entry whose overlap reaches the threshold the loop breaks, having
  replaced that entry by the new topic when the new topic scores strictly higher. The result
  is the flag \<open>is_duplicate\<close> and the accepted list.
\<close>

fun dedup_scan :: "real \<Rightarrow> Topic \<Rightarrow> Topic list \<Rightarrow> Topic list \<Rightarrow> bool \<times> Topic list" where
  "dedup_scan thr topic [] unique_topics = (False, unique_topics)"
| "dedup_scan thr topic (existing # todo) unique_topics =
     (if thr \<le> dedup_overlap topic existing
      then (True,
            if virality_score existing < virality_score topic
            then remove1 existing unique_topics @ [topic]
            else unique_topics)
      else dedup_scan thr topic todo unique_topics)"

definition dedup_step :: "real \<Rightarrow> Topic list \<Rightarrow> Topic \<Rightarrow> Topic list" where
  "dedup_step thr unique_topics topic =
     (case dedup_scan thr topic unique_topics unique_topics of
        (is_duplicate, accepted) \<Rightarrow> if \<not> is_duplicate then accepted @ [topic] else accepted)"

definition deduplicate_topics :: "Topic list \<Rightarrow> real \<Rightarrow> Topic list" where
  "deduplicate_topics topics similarity_threshold =
     foldl (dedup_step similarity_threshold) [] topics"

definition default_threshold :: real where
  "default_threshold = 6 / 10"

section \<open>The researcher (researcher.py)\<close>

text \<open>
  An adapter call either returns topics or raises. \<open>PyException\<close> stands for any instance of
  \<open>Exception\<close> (the failure of a source, the \<open>SourceError\<close> of the specification, is one);
  \<open>CancelledError\<close> is outside that hierarchy and is not caught by \<open>except Exception\<close>.
  The adapters are the environment: \<open>fetch_env scraper limit\<close> is the outcome of
  \<open>async with scraper: return await scraper.fetch_trending(limit=limit)\<close>, and
  \<open>search_env scraper query limit\<close> that of the same block around \<open>scraper.search\<close>.
\<close>

datatype py_exception = PyException string | CancelledError

type_synonym fetch_env = "TrendSource \<Rightarrow> int \<Rightarrow> py_exception + Topic list"

type_synonym search_env = "TrendSource \<Rightarrow> string \<Rightarrow> int \<Rightarrow> py_exception + Topic list"

record ViralContentResearcher =
  sources :: "TrendSource list"
  curator :: ContentCurator
  session :: "ResearchSession option"

text \<open>The three clock readings of a run: session creation, curation, completion.\<close>

record clock =
  t_start :: real
  t_curate :: real
  t_end :: real

text \<open>\<open>x or default\<close> on an optional list: \<open>None\<close> and the empty list give the default.\<close>

definition or_default :: "'a list option \<Rightarrow> 'a list \<Rightarrow> 'a list" where
  "or_default x d = (case x of None \<Rightarrow> d | Some xs \<Rightarrow> if xs = [] then d else xs)"

definition new_ViralContentResearcher ::
  "TrendSource list option \<Rightarrow> ContentCurator option \<Rightarrow> ViralContentResearcher" where
  "new_ViralContentResearcher srcs cur =
     \<lparr> sources = or_default srcs [REDDIT, HACKER_NEWS, RSS_FEED, PRODUCT_HUNT],
       curator = (case cur of None \<Rightarrow> default_curator | Some c \<Rightarrow> c),
       session = None \<rparr>"

text \<open>
  \<open>_get_scraper\<close>: five sources have an adapter, the other three have none. An adapter is
  identified by its source; the cache of adapter objects does not change any result and is
  left out.
\<close>

definition get_scraper :: "TrendSource \<Rightarrow> TrendSource option" where
  "get_scraper src =
     (if src \<in> {REDDIT, GOOGLE_TRENDS, HACKER_NEWS, RSS_FEED, PRODUCT_HUNT}
      then Some src else None)"

text \<open>
  \<open>_fetch_from_source\<close>: no adapter gives the empty list; an \<open>Exception\<close> raised by the
  adapter is printed and turned into the empty list; anything else leaves the coroutine.
\<close>

definition fetch_from_source :: "fetch_env \<Rightarrow> TrendSource \<Rightarrow> int \<Rightarrow> py_exception + Topic list" where
  "fetch_from_source env src limit =
     (case get_scraper src of
        None \<Rightarrow> Inr []
      | Some scraper \<Rightarrow>
          (case env scraper limit of
             Inr topics \<Rightarrow> Inr topics
           | Inl (PyException msg) \<Rightarrow> Inr []
           | Inl CancelledError \<Rightarrow> Inl CancelledError))"

text \<open>
  The task list of \<open>research_trending\<close>: one call of \<open>_fetch_from_source\<close> per source, each
  with \<open>limit=50\<close>. The \<open>limit\<close> of \<open>research_trending\<close> is in scope there and is not used.
\<close>

definition fetch_tasks :: "TrendSource list \<Rightarrow> int \<Rightarrow> (TrendSource \<times> int) list" where
  "fetch_tasks sources_to_query limit = map (\<lambda>src. (src, 50)) sources_to_query"

text \<open>
  \<open>asyncio.gather(*tasks, return_exceptions=True)\<close>: the outcomes in task order, an
  exception that left a task being that task's result.
\<close>

definition gather :: "fetch_env \<Rightarrow> (TrendSource \<times> int) list \<Rightarrow> (py_exception + Topic list) list" where
  "gather env tasks = map (\<lambda>(src, limit). fetch_from_source env src limit) tasks"

text \<open>The merge loop: every result that is a list is appended to \<open>all_topics\<close>.\<close>

fun merge_results :: "Topic list \<Rightarrow> (py_exception + Topic list) list \<Rightarrow> Topic list" where
  "merge_results all_topics [] = all_topics"
| "merge_results all_topics (Inr topics # rest) = merge_results (all_topics @ topics) rest"
| "merge_results all_topics (Inl e # rest) = merge_results all_topics rest"

definition new_ResearchSession ::
  "real \<Rightarrow> TrendSource list \<Rightarrow> ContentCategory list \<times> real \<Rightarrow> ResearchSession" where
  "new_ResearchSession started queried filters =
     \<lparr> session_id = None, started_at = started, completed_at = None,
       topics_discovered = 0, topics_curated = 0, briefs_generated = 0,
       sources_queried = queried, filters_applied = filters \<rparr>"

text \<open>
  \<open>research_trending\<close>. The session is written four times: at creation, with
  \<open>topics_discovered\<close>, with \<open>topics_curated\<close> and with \<open>completed_at\<close>;
  \<open>research_trending_run\<close> returns the curated topics and the session after each of the four
  writes, in order. \<open>research_trending\<close> returns the curated topics and the researcher, whose
  session is the last of the four.
\<close>

definition research_trending_run ::
  "tie_direction \<Rightarrow> ViralContentResearcher \<Rightarrow> fetch_env \<Rightarrow> clock \<Rightarrow> int \<Rightarrow> ContentCategory list option
   \<Rightarrow> TrendSource list option \<Rightarrow> real \<Rightarrow> Topic list \<times> ResearchSession list" where
  "research_trending_run tie self env clk limit categories sources_arg min_score_arg =
     (let s0 = new_ResearchSession (t_start clk) (or_default sources_arg (sources self))
                 (or_default categories [], min_score_arg);
          sources_to_query = or_default sources_arg (sources self);
          tasks = fetch_tasks sources_to_query limit;
          results = gather env tasks;
          all_topics = merge_results [] results;
          s1 = s0\<lparr>topics_discovered := int (length all_topics)\<rparr>;
          deduped = deduplicate_topics all_topics default_threshold;
          curated = curate_topics tie (curator self) (t_curate clk) deduped limit categories
                      (Some min_score_arg);
          s2 = s1\<lparr>topics_curated := int (length curated)\<rparr>;
          s3 = s2\<lparr>completed_at := Some (t_end clk)\<rparr>
      in (curated, [s0, s1, s2, s3]))"

definition research_trending ::
  "tie_direction \<Rightarrow> ViralContentResearcher \<Rightarrow> fetch_env \<Rightarrow> clock \<Rightarrow> int \<Rightarrow> ContentCategory list option
   \<Rightarrow> TrendSource list option \<Rightarrow> real \<Rightarrow> Topic list \<times> ViralContentResearcher" where
  "research_trending tie self env clk limit categories sources_arg min_score_arg =
     (case research_trending_run tie self env clk limit categories sources_arg min_score_arg of
        (curated, writes) \<Rightarrow> (curated, self\<lparr>session := Some (last writes)\<rparr>))"

text \<open>
  \<open>search\<close>: the sources are queried one after the other with \<open>limit=25\<close>; a source without
  adapter is skipped, an \<open>Exception\<close> is printed and the loop goes on, anything else leaves
  \<open>search\<close>. No statement of \<open>search\<close> touches \<open>self._session\<close>.
\<close>

fun search_loop ::
  "search_env \<Rightarrow> string \<Rightarrow> TrendSource list \<Rightarrow> Topic list \<Rightarrow> py_exception + Topic list" where
  "search_loop env query [] all_topics = Inr all_topics"
| "search_loop env query (src # rest) all_topics =
     (case get_scraper src of
        None \<Rightarrow> search_loop env query rest all_topics
      | Some scraper \<Rightarrow>
          (case env scraper query 25 of
             Inr results \<Rightarrow> search_loop env query rest (all_topics @ results)
           | Inl (PyException msg) \<Rightarrow> search_loop env query rest all_topics
           | Inl CancelledError \<Rightarrow> Inl CancelledError))"

definition search ::
  "tie_direction \<Rightarrow> ViralContentResearcher \<Rightarrow> search_env \<Rightarrow> real \<Rightarrow> string \<Rightarrow> int \<Rightarrow> TrendSource list option
   \<Rightarrow> py_exception + Topic list \<times> ViralContentResearcher" where
  "search tie self env now query limit sources_arg =
     (case search_loop env query (or_default sources_arg (sources self)) [] of
        Inl e \<Rightarrow> Inl e
      | Inr all_topics \<Rightarrow>
          (let deduped = deduplicate_topics all_topics default_threshold;
               curated = curate_topics tie (curator self) now deduped limit None (Some 20)
           in Inr (curated, self)))"

text \<open>\<open>research_category\<close> calls \<open>research_trending(limit=100, min_score=20.0)\<close>.\<close>

definition research_category ::
  "tie_direction \<Rightarrow> ViralContentResearcher \<Rightarrow> fetch_env \<Rightarrow> clock \<Rightarrow> ContentCategory \<Rightarrow> int
   \<Rightarrow> Topic list \<times> ViralContentResearcher" where
  "research_category tie self env clk cat limit =
     (case research_trending tie self env clk 100 None None 20 of
        (all_topics, self') \<Rightarrow>
          (slice_to (filter (\<lambda>t. category t = cat) all_topics) limit, self'))"

section \<open>Example topics\<close>

text \<open>
  \<open>new_Topic\<close> is the constructor call \<open>Topic(id=i, title=ttl, source=REDDIT)\<close> with every
  other field at the default of the class, discovered at instant 0.
\<close>

definition new_Topic :: "string option \<Rightarrow> string \<Rightarrow> Topic" where
  "new_Topic i ttl =
     \<lparr> topic_id = i, title = ttl, description = None, url = None, source = REDDIT,
       category = GENERAL, score = 0, comments = 0, shares = 0, views = 0,
       virality_score = 0, trending_velocity = 0, topic_keywords = [], hashtags = [],
       author = None, published_at = None,
       discovered_at = \<lparr> wall = 0, utcoffset = None \<rparr>, content_angle = None,
       target_audience = None \<rparr>"

text \<open>
  None of the scores in the examples is halfway between two hundredths, so the direction a
  tie would take does not enter them; the examples use the direction "down" throughout.
\<close>

definition ex_tie :: tie_direction where
  "ex_tie scores = False"

text \<open>A topic whose exact weighted sum, without comparison batch, is 35.175.\<close>

definition ex_tied :: Topic where
  "ex_tied = (new_Topic None ''zzz'')\<lparr>shares := 7\<rparr>"

definition ex_short :: Topic where
  "ex_short = new_Topic (Some ''1'') ''AI tools''"

definition ex_long :: Topic where
  "ex_long = new_Topic (Some ''2'') ''AI tools for marketing teams''"

definition ex_engaged :: Topic where
  "ex_engaged = (new_Topic (Some ''3'') ''Growth playbook'')\<lparr>score := 500, comments := 100, shares := 50\<rparr>"

text \<open>
  A topic published at the epoch in UTC, and one stamped ten hours after the epoch in the zone
  +10:00, which is the same instant.
\<close>

definition ex_dated :: Topic where
  "ex_dated = (new_Topic (Some ''4'') ''AI tools for marketing teams'')
                \<lparr>published_at := Some \<lparr> wall = 0, utcoffset = Some 0 \<rparr>\<rparr>"

definition ex_offset :: Topic where
  "ex_offset = (new_Topic (Some ''5'') ''AI tools for marketing teams'')
                 \<lparr>published_at := Some \<lparr> wall = 36000, utcoffset = Some 36000 \<rparr>\<rparr>"

definition ex_anon :: Topic where
  "ex_anon = new_Topic None ''AI tools''"

text \<open>
  Three titles for deduplication: the third shares three of its four words with each of the
  first two, which share two of four words with each other. \<open>ex_tools_top\<close> is the first
  with a score above the third's.
\<close>

definition ex_tools :: Topic where
  "ex_tools = new_Topic (Some ''a'') ''AI marketing tools''"

definition ex_tools_top :: Topic where
  "ex_tools_top = ex_tools\<lparr>virality_score := 20\<rparr>"

definition ex_tips :: Topic where
  "ex_tips = new_Topic (Some ''b'') ''AI marketing tips''"

definition ex_both :: Topic where
  "ex_both = (new_Topic (Some ''c'') ''AI marketing tools tips'')\<lparr>virality_score := 10\<rparr>"

text \<open>
  An environment in which Reddit returns one topic, Hacker News fails and the RSS feeds return
  two topics, and one in which every search of Reddit returns two topics with near-identical
  titles and every other source nothing.
\<close>

definition ex_env :: fetch_env where
  "ex_env src limit =
     (if src = REDDIT then Inr [ex_short]
      else if src = HACKER_NEWS then Inl (PyException ''timeout'')
      else if src = RSS_FEED then Inr [ex_long, ex_engaged]
      else Inr [])"

definition ex_dup_env :: fetch_env where
  "ex_dup_env src limit = (if src = REDDIT then Inr [ex_short, ex_anon] else Inr [])"

definition ex_search_env :: search_env where
  "ex_search_env src query limit = (if src = REDDIT then Inr [ex_short, ex_anon] else Inr [])"

definition ex_clock :: clock where
  "ex_clock = \<lparr> t_start = 0, t_curate = 1, t_end = 2 \<rparr>"

section \<open>Auxiliary notions for the proofs\<close>

text \<open>
  Two topics with the same id and the same title are interchangeable as entries of a
  comparison batch. \<open>rescore\<close> is the record the scoring loop leaves at a position.
\<close>

definition same_words :: "Topic \<Rightarrow> Topic \<Rightarrow> bool" where
  "same_words a b = (topic_id a = topic_id b \<and> title a = title b)"

definition rescore ::
  "tie_direction \<Rightarrow> ContentCurator \<Rightarrow> real \<Rightarrow> Topic list \<Rightarrow> Topic \<Rightarrow> Topic" where
  "rescore tie self now batch t = t\<lparr>virality_score := score_topic tie self now t (Some batch)\<rparr>"

text \<open>The two filters of \<open>curate_topics\<close> that run before scoring, and its score threshold.\<close>

definition category_filter :: "ContentCategory list option \<Rightarrow> Topic \<Rightarrow> bool" where
  "category_filter categories t =
     (case categories of None \<Rightarrow> True | Some cs \<Rightarrow> cs = [] \<or> category t \<in> set cs)"

definition age_filter :: "ContentCurator \<Rightarrow> real \<Rightarrow> Topic \<Rightarrow> bool" where
  "age_filter self now t =
     (case published_at t of None \<Rightarrow> True
      | Some p \<Rightarrow> hours_since now (replace_tzinfo_utc p) \<le> of_int (max_age_hours self))"

definition kept_topics ::
  "ContentCurator \<Rightarrow> real \<Rightarrow> ContentCategory list option \<Rightarrow> Topic list \<Rightarrow> Topic list" where
  "kept_topics self now categories topics =
     filter (\<lambda>t. category_filter categories t \<and> age_filter self now t) topics"

definition effective_min_score :: "ContentCurator \<Rightarrow> real option \<Rightarrow> real" where
  "effective_min_score self min_score_arg =
     (case min_score_arg of Some m \<Rightarrow> m | None \<Rightarrow> min_score self)"

text \<open>
  The wording of the specification for the uniqueness factor, to be compared with the code:
  the Jaccard similarity of two word sets, and \<open>max(100 - overlap*100, 10)\<close> with
  \<open>overlap\<close> the largest Jaccard similarity to one of the other topics of the batch.
\<close>

definition jaccard :: "string set \<Rightarrow> string set \<Rightarrow> real" where
  "jaccard A B = real (card (A \<inter> B)) / real (card (A \<union> B))"

definition spec_uniqueness :: "Topic \<Rightarrow> Topic list \<Rightarrow> real" where
  "spec_uniqueness topic others =
     max (100 - fold max (map (\<lambda>e. jaccard (title_words topic) (title_words e)) others) 0 * 100) 10"

section \<open>Evaluating word overlaps\<close>

lemma card_inter_lists:
  "card (set xs \<inter> set ys) = length (remdups (filter (\<lambda>w. w \<in> set ys) xs))"
proof -
  have "set xs \<inter> set ys = set (filter (\<lambda>w. w \<in> set ys) xs)" by auto
  then show ?thesis by (simp only: card_set)
qed

lemma card_union_lists: "card (set xs \<union> set ys) = length (remdups (xs @ ys))"
  unfolding set_append[symmetric] card_set ..

lemma dedup_overlap_words:
  "dedup_overlap a b =
     real (length (remdups (filter (\<lambda>w. w \<in> set (split (lower (title b)))) (split (lower (title a))))))
     / real (max (length (remdups (split (lower (title a)) @ split (lower (title b))))) 1)"
  unfolding dedup_overlap_def title_words_def card_inter_lists card_union_lists ..

lemma uniqueness_overlap_words:
  "uniqueness_overlap a b =
     real (length (remdups (filter (\<lambda>w. w \<in> set (split (lower (title b)))) (split (lower (title a))))))
     / real (max (length (remdups (split (lower (title a))))) 1)"
  unfolding uniqueness_overlap_def title_words_def card_inter_lists card_set ..

lemmas str_eval = split_def lower_def lower_char_def is_space_def

section \<open>Every factor and the final score lie between 0 and 100\<close>

lemma round2_as_int:
  "round2 up x = real_of_int
     (if x * 100 - of_int \<lfloor>x * 100\<rfloor> < 1 / 2 then \<lfloor>x * 100\<rfloor>
      else if 1 / 2 < x * 100 - of_int \<lfloor>x * 100\<rfloor> then \<lfloor>x * 100\<rfloor> + 1
      else if up then \<lfloor>x * 100\<rfloor> + 1 else \<lfloor>x * 100\<rfloor>) / 100"
  by (simp add: round2_def Let_def)

lemma round2_range:
  assumes "0 \<le> x" "x \<le> 100"
  shows "0 \<le> round2 up x \<and> round2 up x \<le> 100"
proof -
  define y where "y = x * 100"
  define f where "f = \<lfloor>y\<rfloor>"
  define r where "r = (if y - of_int f < 1 / 2 then f
      else if 1 / 2 < y - of_int f then f + 1
      else if up then f + 1 else f)"
  have y: "0 \<le> y" "y \<le> 10000" using assms by (simp_all add: y_def)
  have f0: "0 \<le> f" using y by (simp add: f_def)
  have f1: "f \<le> 10000" using y by (simp add: f_def floor_le_iff)
  have above: "f + 1 \<le> 10000" if "\<not> y - of_int f < 1 / 2"
  proof -
    have "of_int f < y" using that by linarith
    then have "real_of_int f < 10000" using y by linarith
    then show ?thesis by linarith
  qed
  have r: "0 \<le> r" "r \<le> 10000"
    using f0 f1 above by (auto simp: r_def)
  have "round2 up x = real_of_int r / 100"
    unfolding round2_as_int r_def f_def y_def ..
  moreover have "0 \<le> real_of_int r" "real_of_int r \<le> 10000" using r by simp_all
  ultimately show ?thesis by simp
qed

lemma engagement_range: "0 \<le> calculate_engagement_score t \<and> calculate_engagement_score t \<le> 100"
  by (auto simp: calculate_engagement_score_def Let_def min_def)

lemma recency_range: "0 \<le> calculate_recency_score now t \<and> calculate_recency_score now t \<le> 100"
  by (auto simp: calculate_recency_score_def Let_def split: option.splits)

lemma relevance_range: "0 \<le> calculate_relevance_score self t \<and> calculate_relevance_score self t \<le> 100"
  unfolding calculate_relevance_score_def Let_def
  by (simp add: min_def)

lemma velocity_range: "0 \<le> calculate_velocity_score now t \<and> calculate_velocity_score now t \<le> 100"
  by (auto simp: calculate_velocity_score_def Let_def split: option.splits)

lemma uniqueness_loop_ge: "m \<le> uniqueness_loop t m ex"
proof (induction ex arbitrary: m)
  case Nil
  show ?case by simp
next
  case (Cons e ex)
  have "max m (uniqueness_overlap t e) \<le> uniqueness_loop t (max m (uniqueness_overlap t e)) ex"
    by (rule Cons.IH)
  then have "m \<le> uniqueness_loop t (max m (uniqueness_overlap t e)) ex" by simp
  with Cons.IH [of m] show ?case by simp
qed

lemma uniqueness_range: "0 \<le> calculate_uniqueness_score t ex \<and> calculate_uniqueness_score t ex \<le> 100"
proof -
  have "0 \<le> uniqueness_loop t 0 xs" for xs by (rule uniqueness_loop_ge)
  then show ?thesis
    by (auto simp: calculate_uniqueness_score_def split: option.splits)
qed

lemma weighted_sum_unfold:
  "sum_list (map (\<lambda>(key, v). v * weight_of key) (factor_scores self now t ex)) =
     calculate_engagement_score t * (25 / 100) + calculate_recency_score now t * (20 / 100)
     + calculate_relevance_score self t * (25 / 100) + calculate_velocity_score now t * (15 / 100)
     + calculate_uniqueness_score t ex * (15 / 100)"
  by (simp add: factor_scores_def weight_of_def WEIGHTS_def)

lemma score_topic_range: "0 \<le> score_topic tie self now t ex \<and> score_topic tie self now t ex \<le> 100"
proof -
  let ?s = "sum_list (map (\<lambda>(key, v). v * weight_of key) (factor_scores self now t ex))"
  have "0 \<le> ?s \<and> ?s \<le> 100"
    unfolding weighted_sum_unfold
    using engagement_range [of t] recency_range [of now t] relevance_range [of self t]
      velocity_range [of now t] uniqueness_range [of t ex]
    by linarith
  then show ?thesis
    by (simp add: score_topic_def Let_def round2_range)
qed

section \<open>The scoring loop rescoring each position against the unscored batch\<close>

lemma uniqueness_loop_cong:
  assumes "list_all2 same_words xs ys" "same_words t t'"
  shows "uniqueness_loop t m xs = uniqueness_loop t' m ys"
  using assms
proof (induction xs ys arbitrary: m rule: list_all2_induct)
  case Nil
  show ?case by simp
next
  case (Cons x xs y ys)
  have "uniqueness_overlap t x = uniqueness_overlap t' y"
    using Cons.hyps(1) Cons.prems
    by (simp add: uniqueness_overlap_def title_words_def same_words_def)
  moreover have "(topic_id x = topic_id t) = (topic_id y = topic_id t')"
    using Cons.hyps(1) Cons.prems by (simp add: same_words_def)
  ultimately show ?case using Cons.IH [OF Cons.prems] by simp
qed

lemma uniqueness_score_cong:
  assumes "list_all2 same_words xs ys" "same_words t t'"
  shows "calculate_uniqueness_score t (Some xs) = calculate_uniqueness_score t' (Some ys)"
proof -
  have "(xs = []) = (ys = [])" using assms(1) by (cases xs; cases ys) simp_all
  then show ?thesis
    using uniqueness_loop_cong [OF assms]
    by (simp add: calculate_uniqueness_score_def)
qed

lemma score_topic_batch_cong:
  assumes "list_all2 same_words xs ys"
  shows "score_topic tie self now t (Some xs) = score_topic tie self now t (Some ys)"
  using uniqueness_score_cong [OF assms, of t t]
  by (simp add: score_topic_def factor_scores_def same_words_def)

lemma same_words_rescore: "same_words (rescore tie self now batch t) t"
  by (simp add: same_words_def rescore_def)

lemma score_all_prefix:
  assumes "k \<le> length ts"
  shows "fold (\<lambda>i xs. score_at tie self now xs i) [0..<k] ts
           = map (rescore tie self now ts) (take k ts) @ drop k ts"
  using assms
proof (induction k)
  case 0
  show ?case by simp
next
  case (Suc k)
  let ?xs = "map (rescore tie self now ts) (take k ts) @ drop k ts"
  have k: "k < length ts" using Suc.prems by simp
  have IH: "fold (\<lambda>i xs. score_at tie self now xs i) [0..<k] ts = ?xs"
    using Suc by simp
  have rel: "list_all2 same_words ?xs ts"
  proof -
    have "list_all2 same_words (map (rescore tie self now ts) (take k ts)) (take k ts)"
      by (simp add: list_all2_conv_all_nth same_words_rescore)
    moreover have "list_all2 same_words (drop k ts) (drop k ts)"
      by (simp add: list_all2_conv_all_nth same_words_def)
    ultimately have "list_all2 same_words ?xs (take k ts @ drop k ts)"
      by (rule list_all2_appendI)
    then show ?thesis by simp
  qed
  have nth: "?xs ! k = ts ! k" using k by (simp add: nth_append)
  have "score_at tie self now ?xs k = ?xs[k := rescore tie self now ts (ts ! k)]"
    using score_topic_batch_cong [OF rel] by (simp add: score_at_def nth rescore_def)
  also have "\<dots> = map (rescore tie self now ts) (take k ts) @ (drop k ts)[0 := rescore tie self now ts (ts ! k)]"
    using k by (simp add: list_update_append)
  also have "(drop k ts)[0 := rescore tie self now ts (ts ! k)] = rescore tie self now ts (ts ! k) # drop (Suc k) ts"
    using k by (simp add: Cons_nth_drop_Suc [symmetric])
  also have "map (rescore tie self now ts) (take k ts) @ rescore tie self now ts (ts ! k) # drop (Suc k) ts
       = map (rescore tie self now ts) (take (Suc k) ts) @ drop (Suc k) ts"
    using k by (simp add: take_Suc_conv_app_nth)
  finally show ?case using IH by simp
qed

lemma score_all_map: "score_all tie self now ts = map (rescore tie self now ts) ts"
  using score_all_prefix [of "length ts" ts tie self now] by (simp add: score_all_def)

section \<open>The shape of the curated list\<close>

lemma curate_topics_unfold:
  "curate_topics tie self now topics limit categories ms =
     slice_to (sort_key (\<lambda>t. - virality_score t)
        (filter (\<lambda>t. effective_min_score self ms \<le> virality_score t)
           (map (rescore tie self now (kept_topics self now categories topics))
              (kept_topics self now categories topics)))) limit"
proof -
  have "filter (age_filter self now)
          (case categories of None \<Rightarrow> topics
           | Some cs \<Rightarrow> if cs \<noteq> [] then filter (\<lambda>t. category t \<in> set cs) topics else topics)
        = kept_topics self now categories topics"
    by (auto simp: kept_topics_def category_filter_def split: option.splits intro: filter_cong)
  then show ?thesis
    unfolding curate_topics_def Let_def score_all_map effective_min_score_def age_filter_def
    by simp
qed

lemma set_slice_to: "set (slice_to xs l) \<subseteq> set xs"
  by (auto simp: slice_to_def dest: in_set_takeD)

lemma slice_to_nonneg: "0 \<le> l \<Longrightarrow> slice_to xs l = take (nat l) xs"
  by (simp add: slice_to_def)

lemma curate_topics_member:
  assumes "x \<in> set (curate_topics tie self now topics limit categories ms)"
  shows "\<exists>t \<in> set topics. category_filter categories t \<and> age_filter self now t
           \<and> x = rescore tie self now (kept_topics self now categories topics) t
           \<and> effective_min_score self ms \<le> virality_score x"
proof -
  have "x \<in> set (filter (\<lambda>t. effective_min_score self ms \<le> virality_score t)
           (map (rescore tie self now (kept_topics self now categories topics))
              (kept_topics self now categories topics)))"
    using assms set_slice_to unfolding curate_topics_unfold by fastforce
  then show ?thesis by (auto simp: kept_topics_def)
qed

lemma curate_topics_sorted:
  "sorted_wrt (\<lambda>a b. virality_score b \<le> virality_score a)
     (curate_topics tie self now topics limit categories ms)"
proof -
  have "sorted_wrt (\<lambda>a b. virality_score b \<le> virality_score a) (sort_key (\<lambda>t. - virality_score t) xs)" for xs :: "Topic list"
    using sorted_sort_key [of "\<lambda>t. - virality_score t" xs] by (simp add: sorted_map)
  then show ?thesis
    unfolding curate_topics_unfold slice_to_def by (simp add: sorted_wrt_take)
qed

lemma curate_topics_length:
  "0 \<le> limit \<Longrightarrow> int (length (curate_topics tie self now topics limit categories ms)) \<le> limit"
  unfolding curate_topics_unfold by (simp add: slice_to_nonneg)

lemma insort_key_map_comm:
  "insort_key f (g x) (map g xs) = map g (insort_key (\<lambda>i. f (g i)) x xs)"
  by (induction xs) simp_all

lemma sort_key_map_comm: "sort_key f (map g xs) = map g (sort_key (\<lambda>i. f (g i)) xs)"
  by (induction xs) (simp_all add: insort_key_map_comm)

lemma filter_as_positions:
  "filter P xs = map ((!) xs) (filter (\<lambda>i. P (xs ! i)) [0..<length xs])"
proof -
  have "filter P (map ((!) xs) [0..<length xs]) = map ((!) xs) (filter (P \<circ> (!) xs) [0..<length xs])"
    by (rule filter_map)
  then show ?thesis by (simp add: map_nth comp_def)
qed

lemma sorted_filter_order:
  assumes "sorted_wrt R (filter P xs)" "a < b" "b < length xs" "P (xs ! a)" "P (xs ! b)"
  shows "R (xs ! a) (xs ! b)"
proof -
  have a: "a < length xs" using assms by simp
  have split: "xs = take a xs @ xs ! a # drop (Suc a) xs"
    using a by (rule id_take_nth_drop)
  have "xs ! b = drop (Suc a) xs ! (b - Suc a)" using assms by simp
  moreover have "b - Suc a < length (drop (Suc a) xs)" using assms by simp
  ultimately have mem: "xs ! b \<in> set (drop (Suc a) xs)" by (metis nth_mem)
  have "sorted_wrt R (filter P (take a xs) @ xs ! a # filter P (drop (Suc a) xs))"
    using assms(1,4) by (subst (asm) split) simp
  then have "\<forall>y \<in> set (filter P (drop (Suc a) xs)). R (xs ! a) y"
    by (simp add: sorted_wrt_append)
  then show ?thesis using mem assms(5) by simp
qed

lemma stable_positions:
  fixes key :: "nat \<Rightarrow> real"
  assumes "sorted_wrt (<) idx" "a < b" "b < length (sort_key key idx)"
    "key (sort_key key idx ! a) = key (sort_key key idx ! b)"
  shows "sort_key key idx ! a < sort_key key idx ! b"
proof -
  let ?k = "key (sort_key key idx ! b)"
  have "filter (\<lambda>y. key y = ?k) (sort_key key idx) = filter (\<lambda>y. key y = ?k) idx"
    by (rule sort_key_stable)
  moreover have "sorted_wrt (<) (filter (\<lambda>y. key y = ?k) idx)"
    using assms(1) by (rule sorted_wrt_filter)
  ultimately have "sorted_wrt (<) (filter (\<lambda>y. key y = ?k) (sort_key key idx))" by simp
  then show ?thesis using assms(2-4) by (rule sorted_filter_order) simp
qed

lemma curate_topics_positions:
  "\<exists>is. length is = length (curate_topics tie self now topics limit categories ms)
     \<and> distinct is
     \<and> (\<forall>a < length is. is ! a < length topics
            \<and> curate_topics tie self now topics limit categories ms ! a
                = rescore tie self now (kept_topics self now categories topics) (topics ! (is ! a)))
     \<and> (\<forall>a b. a < b \<and> b < length is
            \<and> virality_score (curate_topics tie self now topics limit categories ms ! a)
                = virality_score (curate_topics tie self now topics limit categories ms ! b)
            \<longrightarrow> is ! a < is ! b)"
proof -
  let ?kept = "kept_topics self now categories topics"
  let ?g = "\<lambda>i. rescore tie self now ?kept (topics ! i)"
  let ?key = "\<lambda>i. - virality_score (?g i)"
  define idx where "idx = filter (\<lambda>i. effective_min_score self ms \<le> virality_score (?g i))
      (filter (\<lambda>i. category_filter categories (topics ! i) \<and> age_filter self now (topics ! i))
         [0..<length topics])"
  define n where "n = (if 0 \<le> limit then nat limit else nat (int (length idx) + limit))"
  define js where "js = take n (sort_key ?key idx)"
  have kept: "?kept = map ((!) topics)
      (filter (\<lambda>i. category_filter categories (topics ! i) \<and> age_filter self now (topics ! i))
         [0..<length topics])"
    unfolding kept_topics_def by (rule filter_as_positions)
  have scored: "filter (\<lambda>t. effective_min_score self ms \<le> virality_score t)
           (map (rescore tie self now ?kept) ?kept) = map ?g idx"
    by (subst (2) kept) (simp add: filter_map comp_def idx_def)
  have out: "curate_topics tie self now topics limit categories ms = map ?g js"
    unfolding curate_topics_unfold scored sort_key_map_comm js_def n_def slice_to_def
    by (simp add: take_map)
  have sorted_idx: "sorted_wrt (<) idx"
    unfolding idx_def by (intro sorted_wrt_filter) simp
  have dist: "distinct js"
    unfolding js_def using sorted_idx by (simp add: strict_sorted_iff distinct_take)
  have bound: "\<forall>i \<in> set js. i < length topics"
  proof
    fix i assume "i \<in> set js"
    then have "i \<in> set (sort_key ?key idx)" unfolding js_def by (rule in_set_takeD)
    then show "i < length topics" by (simp add: idx_def)
  qed
  have ties: "js ! a < js ! b"
    if "a < b" "b < length js" "virality_score (?g (js ! a)) = virality_score (?g (js ! b))" for a b
  proof -
    have b: "b < length (sort_key ?key idx)" "b < n" using that(2) by (simp_all add: js_def)
    have nth: "js ! a = sort_key ?key idx ! a" "js ! b = sort_key ?key idx ! b"
      using that(1) b by (simp_all add: js_def)
    have "?key (sort_key ?key idx ! a) = ?key (sort_key ?key idx ! b)"
      using that(3) unfolding nth by simp
    with sorted_idx that(1) b(1) show ?thesis unfolding nth by (rule stable_positions)
  qed
  have "length js = length (curate_topics tie self now topics limit categories ms)"
    by (simp add: out)
  moreover have "\<forall>a < length js. js ! a < length topics
            \<and> curate_topics tie self now topics limit categories ms ! a = ?g (js ! a)"
    using bound by (simp add: out)
  moreover have "\<forall>a b. a < b \<and> b < length js
            \<and> virality_score (curate_topics tie self now topics limit categories ms ! a)
                = virality_score (curate_topics tie self now topics limit categories ms ! b)
            \<longrightarrow> js ! a < js ! b"
  proof (intro allI impI)
    fix a b
    assume h: "a < b \<and> b < length js
            \<and> virality_score (curate_topics tie self now topics limit categories ms ! a)
                = virality_score (curate_topics tie self now topics limit categories ms ! b)"
    then have "a < length js" "b < length js" by simp_all
    then have "curate_topics tie self now topics limit categories ms ! a = ?g (js ! a)"
      "curate_topics tie self now topics limit categories ms ! b = ?g (js ! b)"
      by (simp_all add: out)
    with h show "js ! a < js ! b" by (intro ties) simp_all
  qed
  ultimately show ?thesis using dist by blast
qed


section \<open>The engagement factor\<close>

text \<open>
  Claim C7. For every topic whose three engagement counts are not negative, the engagement
  factor is \<open>min(score/50, 40) + min(comments/25, 30) + min(shares/10, 30)\<close>, capped at 100.
  The guards \<open>if count > 0\<close> of the code change nothing there: a count of zero adds zero.
\<close>

theorem engagement_formula:
  assumes "0 \<le> score t" "0 \<le> comments t" "0 \<le> shares t"
  shows "calculate_engagement_score t =
           min (min (of_int (score t) / 50) 40 + min (of_int (comments t) / 25) 30
                + min (of_int (shares t) / 10) 30) 100"
proof -
  have "(if 0 < n then s + min (of_int n / d) c else s) = s + min (of_int n / d) c"
    if "0 \<le> n" "0 < d" "0 \<le> c" for n :: int and s d c :: real
    using that by (cases "n = 0") simp_all
  then show ?thesis
    using assms by (simp add: calculate_engagement_score_def Let_def)
qed

theorem engagement_formula_witness:
  "0 \<le> score ex_engaged \<and> 0 \<le> comments ex_engaged \<and> 0 \<le> shares ex_engaged
   \<and> calculate_engagement_score ex_engaged = 19"
  using engagement_formula [of ex_engaged]
  by (simp add: ex_engaged_def new_Topic_def)

section \<open>Entries with the id of the scored topic\<close>

lemma uniqueness_loop_all_same:
  "\<forall>e \<in> set batch. topic_id e = topic_id t \<Longrightarrow> uniqueness_loop t m batch = m"
proof (induction batch)
  case Nil
  show ?case by simp
next
  case (Cons e batch)
  have a: "topic_id e = topic_id t" using Cons.prems by (meson list.set_intros(1))
  have b: "\<forall>x \<in> set batch. topic_id x = topic_id t" using Cons.prems by (meson list.set_intros(2))
  have "uniqueness_loop t m batch = m" by (rule Cons.IH [OF b])
  with a show ?case by simp
qed

lemma uniqueness_loop_skip:
  "uniqueness_loop t m (filter (\<lambda>e. topic_id e \<noteq> topic_id t) batch) = uniqueness_loop t m batch"
proof (induction batch arbitrary: m)
  case Nil
  show ?case by simp
next
  case (Cons e batch)
  show ?case
  proof (cases "topic_id e = topic_id t")
    case True
    then show ?thesis using Cons.IH [of m] by simp
  next
    case False
    then show ?thesis using Cons.IH [of "max m (uniqueness_overlap t e)"] by simp
  qed
qed

text \<open>
  Claim C10. The uniqueness loop skips every entry of the batch whose id equals the id of the
  scored topic: the loop gives the same result on the batch without those entries. When every
  topic of a batch has the id \<open>None\<close>, each topic of the batch gets the uniqueness factor
  100, whatever the titles are.
\<close>

theorem uniqueness_same_id_skipped:
  "uniqueness_loop t m batch
     = uniqueness_loop t m (filter (\<lambda>e. topic_id e \<noteq> topic_id t) batch)
   \<and> ((\<forall>e \<in> set batch. topic_id e = None) \<and> t \<in> set batch
        \<longrightarrow> calculate_uniqueness_score t (Some batch) = 100)"
proof -
  have "calculate_uniqueness_score t (Some batch) = 100"
    if h: "\<forall>e \<in> set batch. topic_id e = None" "t \<in> set batch"
  proof -
    have ne: "batch \<noteq> []" using h(2) by auto
    have "topic_id t = None" using h by blast
    then have "\<forall>e \<in> set batch. topic_id e = topic_id t" using h(1) by metis
    then have "uniqueness_loop t 0 batch = 0" by (rule uniqueness_loop_all_same)
    with ne show ?thesis by (simp add: calculate_uniqueness_score_def)
  qed
  moreover have "uniqueness_loop t m batch
     = uniqueness_loop t m (filter (\<lambda>e. topic_id e \<noteq> topic_id t) batch)"
    by (rule uniqueness_loop_skip [symmetric])
  ultimately show ?thesis by blast
qed

theorem uniqueness_same_id_skipped_witness:
  "topic_id ex_anon = None \<and> ex_anon \<in> set [ex_anon, ex_anon]
   \<and> title ex_anon = ''AI tools''
   \<and> calculate_uniqueness_score ex_anon (Some [ex_anon, ex_anon]) = 100"
proof -
  have a: "\<forall>e \<in> set [ex_anon, ex_anon]. topic_id e = None"
    by (simp add: ex_anon_def new_Topic_def)
  have b: "ex_anon \<in> set [ex_anon, ex_anon]" by simp
  have "calculate_uniqueness_score ex_anon (Some [ex_anon, ex_anon]) = 100"
    using uniqueness_same_id_skipped [of ex_anon 0 "[ex_anon, ex_anon]"] a b by blast
  then show ?thesis by (simp add: ex_anon_def new_Topic_def)
qed


section \<open>The uniqueness factor\<close>

lemma Max_insert_pair:
  fixes a b :: real
  assumes "finite A"
  shows "Max (insert a (insert b A)) = Max (insert (max a b) A)"
proof (cases "A = {}")
  case True
  then show ?thesis by simp
next
  case False
  then show ?thesis using assms by (simp add: max.assoc)
qed

lemma uniqueness_loop_Max:
  "uniqueness_loop t m batch
     = Max (insert m (uniqueness_overlap t ` {e \<in> set batch. topic_id e \<noteq> topic_id t}))"
proof (induction batch arbitrary: m)
  case Nil
  show ?case by simp
next
  case (Cons x batch)
  let ?S = "uniqueness_overlap t ` {e \<in> set batch. topic_id e \<noteq> topic_id t}"
  have fin: "finite ?S" by simp
  show ?case
  proof (cases "topic_id x = topic_id t")
    case True
    then have "{e \<in> set (x # batch). topic_id e \<noteq> topic_id t}
                 = {e \<in> set batch. topic_id e \<noteq> topic_id t}" by auto
    then show ?thesis using True Cons.IH [of m] by simp
  next
    case False
    then have "{e \<in> set (x # batch). topic_id e \<noteq> topic_id t}
                 = insert x {e \<in> set batch. topic_id e \<noteq> topic_id t}" by auto
    then have img: "uniqueness_overlap t ` {e \<in> set (x # batch). topic_id e \<noteq> topic_id t}
                 = insert (uniqueness_overlap t x) ?S" by simp
    have "Max (insert m (insert (uniqueness_overlap t x) ?S))
            = Max (insert (max m (uniqueness_overlap t x)) ?S)"
      using fin by (rule Max_insert_pair)
    then show ?thesis
      using False Cons.IH [of "max m (uniqueness_overlap t x)"] unfolding img by simp
  qed
qed

text \<open>
  Claim C2, as amended. Without a comparison batch, and with an empty one, the uniqueness
  factor is 70. For a non-empty batch it is \<open>max(100 - overlap*100, 10)\<close>, where
  \<open>overlap\<close> is the largest value, over the entries of the batch whose id differs from the
  id of the scored topic, of the number of shared title words divided by the number of title
  words of the scored topic itself (at least 1), and 0 when there is no such entry. The
  divisor is the size of the topic's own word set, not of the union.
\<close>

theorem uniqueness_formula:
  "calculate_uniqueness_score t None = 70
   \<and> calculate_uniqueness_score t (Some []) = 70
   \<and> (batch \<noteq> [] \<longrightarrow>
        calculate_uniqueness_score t (Some batch)
          = max (100 - Max (insert 0
                   ((\<lambda>e. real (card (title_words t \<inter> title_words e))
                         / real (max (card (title_words t)) 1))
                    ` {e \<in> set batch. topic_id e \<noteq> topic_id t})) * 100) 10)"
proof -
  have "uniqueness_overlap t = (\<lambda>e. real (card (title_words t \<inter> title_words e))
                         / real (max (card (title_words t)) 1))"
    by (rule ext) (simp add: uniqueness_overlap_def)
  then show ?thesis
    using uniqueness_loop_Max [of t 0 batch]
    by (simp add: calculate_uniqueness_score_def)
qed

lemma ex_short_uniqueness: "calculate_uniqueness_score ex_short (Some [ex_short, ex_long]) = 10"
  by code_simp

theorem uniqueness_formula_witness:
  "[ex_short, ex_long] \<noteq> []
   \<and> calculate_uniqueness_score ex_short (Some [ex_short, ex_long]) = 10"
  using uniqueness_formula [of ex_short "[ex_short, ex_long]"] ex_short_uniqueness
  by blast

text \<open>
  Claim C2 as stated fails: for the title \<open>AI tools\<close> compared with
  \<open>AI tools for marketing teams\<close> the code gives the factor 10 (both words are shared, the
  overlap is 2/2), while the Jaccard similarity 2/5 of the claim gives 60.
\<close>

theorem uniqueness_not_jaccard:
  "calculate_uniqueness_score ex_short (Some [ex_short, ex_long]) = 10
   \<and> spec_uniqueness ex_short [ex_long] = 60"
  by code_simp

section \<open>The weighted score\<close>

lemma round2_nearest:
  "(\<exists>n::int. round2 up x = of_int n / 100) \<and> \<bar>round2 up x - x\<bar> \<le> 1 / 200"
proof -
  define y where "y = x * 100"
  define f where "f = \<lfloor>y\<rfloor>"
  define r where "r = (if y - of_int f < 1 / 2 then f
      else if 1 / 2 < y - of_int f then f + 1
      else if up then f + 1 else f)"
  have eq: "round2 up x = real_of_int r / 100"
    unfolding round2_as_int r_def f_def y_def ..
  have lo: "of_int f \<le> y" and hi: "y < of_int f + 1" by (simp_all add: f_def)
  have "\<bar>real_of_int r - y\<bar> \<le> 1 / 2"
    using lo hi by (auto simp: r_def abs_le_iff)
  then have "\<bar>real_of_int r / 100 - x\<bar> \<le> 1 / 200"
    by (simp add: y_def abs_le_iff field_simps)
  then have "\<bar>round2 up x - x\<bar> \<le> 1 / 200" unfolding eq .
  moreover have "\<exists>n::int. round2 up x = of_int n / 100" using eq by blast
  ultimately show ?thesis by blast
qed

text \<open>
  Claim C1. The score of a topic is the weighted sum of the five factors with the weights
  0.25, 0.20, 0.25, 0.15 and 0.15, rounded to two decimal places: it is a whole number of
  hundredths at distance at most 0.005 from the sum, whichever way a tie is rounded. It lies
  between 0 and 100 without any clamp, and so does the score of every topic that
  \<open>curate_topics\<close> returns.
\<close>

theorem score_topic_weighted_bounded:
  "(\<exists>n::int. score_topic tie self now t ex = of_int n / 100)
   \<and> \<bar>score_topic tie self now t ex
        - (calculate_engagement_score t * (25 / 100)
           + calculate_recency_score now t * (20 / 100)
           + calculate_relevance_score self t * (25 / 100)
           + calculate_velocity_score now t * (15 / 100)
           + calculate_uniqueness_score t ex * (15 / 100))\<bar> \<le> 1 / 200
   \<and> 0 \<le> score_topic tie self now t ex \<and> score_topic tie self now t ex \<le> 100
   \<and> (\<forall>x \<in> set (curate_topics tie self now topics limit categories ms).
          0 \<le> virality_score x \<and> virality_score x \<le> 100)"
proof -
  have eq: "score_topic tie self now t ex
     = round2 (tie (factor_scores self now t ex))
         (calculate_engagement_score t * (25 / 100)
          + calculate_recency_score now t * (20 / 100)
          + calculate_relevance_score self t * (25 / 100)
          + calculate_velocity_score now t * (15 / 100)
          + calculate_uniqueness_score t ex * (15 / 100))"
    unfolding score_topic_def Let_def weighted_sum_unfold ..
  have cur: "0 \<le> virality_score x \<and> virality_score x \<le> 100"
    if mem: "x \<in> set (curate_topics tie self now topics limit categories ms)" for x
  proof -
    obtain u where "x = rescore tie self now (kept_topics self now categories topics) u"
      using curate_topics_member [OF mem] by blast
    then show ?thesis using score_topic_range by (simp add: rescore_def)
  qed
  have near: "(\<exists>n::int. score_topic tie self now t ex = of_int n / 100)
     \<and> \<bar>score_topic tie self now t ex
        - (calculate_engagement_score t * (25 / 100)
           + calculate_recency_score now t * (20 / 100)
           + calculate_relevance_score self t * (25 / 100)
           + calculate_velocity_score now t * (15 / 100)
           + calculate_uniqueness_score t ex * (15 / 100))\<bar> \<le> 1 / 200"
    unfolding eq by (rule round2_nearest)
  show ?thesis
    using near score_topic_range [of tie self now t ex] cur by blast
qed

text \<open>
  At an exact tie the score follows the direction given: for the topic titled \<open>zzz\<close> with
  7 shares the exact sum is 35.175, and the score is 35.17 or 35.18.
\<close>

lemma score_topic_at_tie:
  "score_topic (\<lambda>scores. False) default_curator 0 ex_tied None = 3517 / 100
   \<and> score_topic (\<lambda>scores. True) default_curator 0 ex_tied None = 3518 / 100"
  by code_simp

lemma ex_curated:
  "curate_topics ex_tie default_curator 0 [ex_short, ex_long] 25 None None
     = [ex_long\<lparr>virality_score := 36\<rparr>]"
  by code_simp

theorem score_topic_weighted_bounded_witness:
  "ex_long\<lparr>virality_score := 36\<rparr>
     \<in> set (curate_topics ex_tie default_curator 0 [ex_short, ex_long] 25 None None)
   \<and> 0 \<le> virality_score (ex_long\<lparr>virality_score := 36\<rparr>)
   \<and> virality_score (ex_long\<lparr>virality_score := 36\<rparr>) \<le> 100"
  using score_topic_weighted_bounded
          [where tie = ex_tie and self = default_curator and now = 0 and t = ex_short
             and ex = None and topics = "[ex_short, ex_long]" and limit = 25
             and categories = None and ms = None]
        ex_curated
  by simp

section \<open>The output of curation\<close>

lemma hours_since_utc:
  assumes "utcoffset p = None \<or> utcoffset p = Some 0"
  shows "hours_since now (published_aware p) = hours_since now (replace_tzinfo_utc p)"
  using assms by (auto simp: hours_since_def published_aware_def replace_tzinfo_utc_def)

text \<open>
  Claim C6, as amended. Every topic in the output of \<open>curate_topics\<close> has its category in
  the given list when a non-empty list is given, has a score of at least the minimum score
  (the argument, or the curator's default when the argument is \<open>None\<close>), and has no
  publish timestamp or, when its timestamp is naive or in UTC, is no older than
  \<open>max_age_hours\<close>; nothing is said about a timestamp in another zone. The output is in
  descending order of score. Each output topic is the input topic at some position of the
  batch with a new score, no position is used twice, and two output topics of equal score
  stand in the order of their positions in the batch. When \<open>limit\<close> is not negative, the
  output has at most \<open>limit\<close> topics.
\<close>

theorem curate_topics_output:
  "(\<forall>t \<in> set (curate_topics tie self now topics limit categories min_score_arg).
       (\<forall>cs. categories = Some cs \<and> cs \<noteq> [] \<longrightarrow> category t \<in> set cs)
     \<and> (case min_score_arg of Some m \<Rightarrow> m | None \<Rightarrow> min_score self) \<le> virality_score t
     \<and> (case published_at t of None \<Rightarrow> True
         | Some p \<Rightarrow> (utcoffset p = None \<or> utcoffset p = Some 0) \<longrightarrow>
             hours_since now (published_aware p) \<le> of_int (max_age_hours self)))
   \<and> sorted_wrt (\<lambda>a b. virality_score b \<le> virality_score a)
        (curate_topics tie self now topics limit categories min_score_arg)
   \<and> (\<exists>is. length is = length (curate_topics tie self now topics limit categories min_score_arg)
          \<and> distinct is
          \<and> (\<forall>a < length is. is ! a < length topics
                \<and> (\<exists>v. curate_topics tie self now topics limit categories min_score_arg ! a
                          = (topics ! (is ! a))\<lparr>virality_score := v\<rparr>))
          \<and> (\<forall>a b. a < b \<and> b < length is
                \<and> virality_score (curate_topics tie self now topics limit categories min_score_arg ! a)
                    = virality_score (curate_topics tie self now topics limit categories min_score_arg ! b)
                \<longrightarrow> is ! a < is ! b))
   \<and> (0 \<le> limit \<longrightarrow>
        int (length (curate_topics tie self now topics limit categories min_score_arg)) \<le> limit)"
proof -
  let ?out = "curate_topics tie self now topics limit categories min_score_arg"
  have members: "(\<forall>cs. categories = Some cs \<and> cs \<noteq> [] \<longrightarrow> category t \<in> set cs)
     \<and> (case min_score_arg of Some m \<Rightarrow> m | None \<Rightarrow> min_score self) \<le> virality_score t
     \<and> (case published_at t of None \<Rightarrow> True
         | Some p \<Rightarrow> (utcoffset p = None \<or> utcoffset p = Some 0) \<longrightarrow>
             hours_since now (published_aware p) \<le> of_int (max_age_hours self))"
    if mem: "t \<in> set ?out" for t
  proof -
    obtain u where u: "category_filter categories u" "age_filter self now u"
        "t = rescore tie self now (kept_topics self now categories topics) u"
        "effective_min_score self min_score_arg \<le> virality_score t"
      using curate_topics_member [OF mem] by blast
    have same: "category t = category u" "published_at t = published_at u"
      using u(3) by (simp_all add: rescore_def)
    have "(\<forall>cs. categories = Some cs \<and> cs \<noteq> [] \<longrightarrow> category t \<in> set cs)"
      using u(1) same(1) by (auto simp: category_filter_def)
    moreover have "(case min_score_arg of Some m \<Rightarrow> m | None \<Rightarrow> min_score self) \<le> virality_score t"
      using u(4) by (simp add: effective_min_score_def)
    moreover have "case published_at t of None \<Rightarrow> True
         | Some p \<Rightarrow> (utcoffset p = None \<or> utcoffset p = Some 0) \<longrightarrow>
             hours_since now (published_aware p) \<le> of_int (max_age_hours self)"
    proof (cases "published_at u")
      case None
      then show ?thesis by (simp add: same(2))
    next
      case (Some p)
      then have "hours_since now (replace_tzinfo_utc p) \<le> of_int (max_age_hours self)"
        using u(2) by (simp add: age_filter_def)
      then show ?thesis using Some by (simp add: same(2) hours_since_utc)
    qed
    ultimately show ?thesis by blast
  qed
  obtain js where js: "length js = length ?out" "distinct js"
    "\<forall>a < length js. js ! a < length topics
        \<and> ?out ! a = rescore tie self now (kept_topics self now categories topics) (topics ! (js ! a))"
    "\<forall>a b. a < b \<and> b < length js
        \<and> virality_score (?out ! a) = virality_score (?out ! b) \<longrightarrow> js ! a < js ! b"
    using curate_topics_positions [of tie self now topics limit categories min_score_arg] by blast
  have "\<forall>a < length js. js ! a < length topics
          \<and> (\<exists>v. ?out ! a = (topics ! (js ! a))\<lparr>virality_score := v\<rparr>)"
    using js(3) unfolding rescore_def by blast
  with js(1,2,4) have positions:
    "\<exists>is. length is = length ?out \<and> distinct is
          \<and> (\<forall>a < length is. is ! a < length topics
                \<and> (\<exists>v. ?out ! a = (topics ! (is ! a))\<lparr>virality_score := v\<rparr>))
          \<and> (\<forall>a b. a < b \<and> b < length is
                \<and> virality_score (?out ! a) = virality_score (?out ! b) \<longrightarrow> is ! a < is ! b)"
    by blast
  show ?thesis
    using members positions
      curate_topics_sorted [of tie self now topics limit categories min_score_arg]
      curate_topics_length [of limit tie self now topics categories min_score_arg]
    by blast
qed

lemma ex_curated_dated:
  "curate_topics ex_tie default_curator 3600 [ex_short, ex_dated] 25 (Some [GENERAL]) None
     = [ex_dated\<lparr>virality_score := 47\<rparr>]"
  by code_simp

theorem curate_topics_output_witness:
  "ex_dated\<lparr>virality_score := 47\<rparr>
     \<in> set (curate_topics ex_tie default_curator 3600 [ex_short, ex_dated] 25 (Some [GENERAL]) None)
   \<and> [GENERAL] \<noteq> [] \<and> (0::int) \<le> 25
   \<and> published_at (ex_dated\<lparr>virality_score := 47\<rparr>) = Some \<lparr> wall = 0, utcoffset = Some 0 \<rparr>
   \<and> category (ex_dated\<lparr>virality_score := 47\<rparr>) \<in> set [GENERAL]
   \<and> min_score default_curator \<le> virality_score (ex_dated\<lparr>virality_score := 47\<rparr>)
   \<and> hours_since 3600 (published_aware \<lparr> wall = 0, utcoffset = Some 0 \<rparr>)
        \<le> of_int (max_age_hours default_curator)
   \<and> int (length (curate_topics ex_tie default_curator 3600 [ex_short, ex_dated] 25
                    (Some [GENERAL]) None)) \<le> 25"
proof -
  have mem: "ex_dated\<lparr>virality_score := 47\<rparr>
     \<in> set (curate_topics ex_tie default_curator 3600 [ex_short, ex_dated] 25 (Some [GENERAL]) None)"
    by (simp add: ex_curated_dated)
  have pub: "published_at (ex_dated\<lparr>virality_score := 47\<rparr>) = Some \<lparr> wall = 0, utcoffset = Some 0 \<rparr>"
    by (simp add: ex_dated_def)
  have inst: "(\<forall>cs. Some [GENERAL] = Some cs \<and> cs \<noteq> [] \<longrightarrow>
                  category (ex_dated\<lparr>virality_score := 47\<rparr>) \<in> set cs)
     \<and> (case None of Some m \<Rightarrow> m | None \<Rightarrow> min_score default_curator)
          \<le> virality_score (ex_dated\<lparr>virality_score := 47\<rparr>)
     \<and> (case published_at (ex_dated\<lparr>virality_score := 47\<rparr>) of None \<Rightarrow> True
         | Some p \<Rightarrow> (utcoffset p = None \<or> utcoffset p = Some 0) \<longrightarrow>
             hours_since 3600 (published_aware p) \<le> of_int (max_age_hours default_curator))"
    using curate_topics_output
            [where tie = ex_tie and self = default_curator and now = 3600
               and topics = "[ex_short, ex_dated]" and limit = 25
               and categories = "Some [GENERAL]" and min_score_arg = None]
          mem
    by blast
  have len: "int (length (curate_topics ex_tie default_curator 3600 [ex_short, ex_dated] 25
                    (Some [GENERAL]) None)) \<le> 25"
    using curate_topics_output
            [where tie = ex_tie and self = default_curator and now = 3600
               and topics = "[ex_short, ex_dated]" and limit = 25
               and categories = "Some [GENERAL]" and min_score_arg = None]
    by simp
  show ?thesis using mem pub inst len by (simp add: pub)
qed

text \<open>
  Claim C6 as stated fails at two inputs. With the empty list as \<open>categories\<close> nothing is
  filtered, so the output holds topics whose category is not in the given list; with
  \<open>limit = -1\<close> the slice drops the last topic only, and the output of one topic is longer
  than the limit.
\<close>

theorem curate_topics_empty_categories_negative_limit:
  "curate_topics ex_tie default_curator 0 [ex_short, ex_long] 25 (Some []) (Some 0)
     = [ex_long\<lparr>virality_score := 36\<rparr>, ex_short\<lparr>virality_score := 57 / 2\<rparr>]
   \<and> category (ex_long\<lparr>virality_score := 36\<rparr>) \<notin> set []
   \<and> curate_topics ex_tie default_curator 0 [ex_short, ex_long] (- 1) None (Some 0)
     = [ex_long\<lparr>virality_score := 36\<rparr>]
   \<and> \<not> int (length [ex_long\<lparr>virality_score := 36\<rparr>]) \<le> - 1"
  by code_simp

text \<open>
  The age filter and the recency factor read a timestamp with an offset differently. A topic
  stamped ten hours after the epoch in the zone +10:00 was published at the epoch; eighty
  hours later the recency factor takes it for 80 hours old and gives 10, while the age
  filter, having replaced the zone by UTC, takes it for 70 hours old and keeps it at
  \<open>max_age_hours = 72\<close>.
\<close>

lemma age_filter_keeps_offset_topic:
  "hours_since 288000 (published_aware \<lparr> wall = 36000, utcoffset = Some 36000 \<rparr>) = 80
   \<and> hours_since 288000 (replace_tzinfo_utc \<lparr> wall = 36000, utcoffset = Some 36000 \<rparr>) = 70
   \<and> calculate_recency_score 288000 ex_offset = 10
   \<and> curate_topics ex_tie default_curator 288000 [ex_offset] 25 None None
       = [ex_offset\<lparr>virality_score := 35\<rparr>]"
  by code_simp

section \<open>Deduplication\<close>

lemma dedup_scan_find:
  "dedup_scan thr topic todo acc =
     (case find (\<lambda>e. thr \<le> dedup_overlap topic e) todo of
        None \<Rightarrow> (False, acc)
      | Some e \<Rightarrow> (True, if virality_score e < virality_score topic
                          then remove1 e acc @ [topic] else acc))"
  by (induction todo) simp_all

lemma dedup_step_find:
  "dedup_step thr acc topic =
     (case find (\<lambda>e. thr \<le> dedup_overlap topic e) acc of
        None \<Rightarrow> acc @ [topic]
      | Some e \<Rightarrow> if virality_score e < virality_score topic
                  then remove1 e acc @ [topic] else acc)"
  by (simp add: dedup_step_def dedup_scan_find split: option.splits)

lemma scenario_overlap:
  assumes "title a = ''AI Marketing Tools for 2025''" "title b = ''Best AI Marketing Tools 2025''"
  shows "dedup_overlap b a = 2 / 3"
  using assms by (simp add: dedup_overlap_words str_eval)

lemma count_list_remove1:
  "e \<in> set xs \<Longrightarrow> Suc (count_list (remove1 e xs) e) = count_list xs e"
  by (induction xs) auto

text \<open>
  Claim C4, as amended. When the first accepted topic, in acceptance order, whose overlap
  with a new topic reaches the threshold is \<open>existing\<close>, exactly one of the two survives:
  if the new topic scores strictly higher, it is in the accepted list afterwards and one
  occurrence of \<open>existing\<close> has left it; otherwise the accepted list stays as it is and the
  new topic is discarded. Two topics titled \<open>AI Marketing Tools for 2025\<close> and
  \<open>Best AI Marketing Tools 2025\<close> deduplicate to one record: the second when it scores
  strictly higher, the first otherwise.
\<close>

theorem dedup_first_match_resolved:
  "(find (\<lambda>e. thr \<le> dedup_overlap topic e) accepted = Some existing \<longrightarrow>
      (if virality_score existing < virality_score topic
       then topic \<in> set (dedup_step thr accepted topic)
            \<and> Suc (count_list (dedup_step thr accepted topic) existing)
                = count_list accepted existing
       else dedup_step thr accepted topic = accepted))
   \<and> (title a = ''AI Marketing Tools for 2025'' \<and> title b = ''Best AI Marketing Tools 2025'' \<longrightarrow>
        deduplicate_topics [a, b] default_threshold
          = [if virality_score a < virality_score b then b else a])"
proof -
  have scenario: "deduplicate_topics [a, b] default_threshold
          = [if virality_score a < virality_score b then b else a]"
    if "title a = ''AI Marketing Tools for 2025''" "title b = ''Best AI Marketing Tools 2025''"
    using scenario_overlap [OF that]
    by (simp add: deduplicate_topics_def dedup_step_find default_threshold_def)
  have first: "if virality_score existing < virality_score topic
       then topic \<in> set (dedup_step thr accepted topic)
            \<and> Suc (count_list (dedup_step thr accepted topic) existing)
                = count_list accepted existing
       else dedup_step thr accepted topic = accepted"
    if found: "find (\<lambda>e. thr \<le> dedup_overlap topic e) accepted = Some existing"
  proof (cases "virality_score existing < virality_score topic")
    case True
    have mem: "existing \<in> set accepted" using found by (auto simp: find_Some_iff)
    have ne: "topic \<noteq> existing" using True by auto
    have "dedup_step thr accepted topic = remove1 existing accepted @ [topic]"
      using found True by (simp add: dedup_step_find)
    then show ?thesis using True ne count_list_remove1 [OF mem] by simp
  next
    case False
    then show ?thesis using found by (simp add: dedup_step_find)
  qed
  show ?thesis using scenario first by blast
qed

lemma ex_first_match:
  "find (\<lambda>e. default_threshold \<le> dedup_overlap ex_both e) [ex_tips, ex_tools] = Some ex_tips
   \<and> virality_score ex_tips < virality_score ex_both"
  by code_simp

lemma ex_first_match_top:
  "find (\<lambda>e. default_threshold \<le> dedup_overlap ex_both e) [ex_tools_top, ex_tips]
     = Some ex_tools_top
   \<and> \<not> virality_score ex_tools_top < virality_score ex_both"
  by code_simp

theorem dedup_first_match_resolved_witness:
  "find (\<lambda>e. default_threshold \<le> dedup_overlap ex_both e) [ex_tips, ex_tools] = Some ex_tips
   \<and> virality_score ex_tips < virality_score ex_both
   \<and> ex_both \<in> set (dedup_step default_threshold [ex_tips, ex_tools] ex_both)
   \<and> Suc (count_list (dedup_step default_threshold [ex_tips, ex_tools] ex_both) ex_tips)
       = count_list [ex_tips, ex_tools] ex_tips
   \<and> find (\<lambda>e. default_threshold \<le> dedup_overlap ex_both e) [ex_tools_top, ex_tips]
       = Some ex_tools_top
   \<and> \<not> virality_score ex_tools_top < virality_score ex_both
   \<and> dedup_step default_threshold [ex_tools_top, ex_tips] ex_both = [ex_tools_top, ex_tips]
   \<and> title (new_Topic None ''AI Marketing Tools for 2025'') = ''AI Marketing Tools for 2025''
   \<and> title ((new_Topic None ''Best AI Marketing Tools 2025'')\<lparr>virality_score := 5\<rparr>)
        = ''Best AI Marketing Tools 2025''
   \<and> deduplicate_topics [new_Topic None ''AI Marketing Tools for 2025'',
         (new_Topic None ''Best AI Marketing Tools 2025'')\<lparr>virality_score := 5\<rparr>] default_threshold
       = [(new_Topic None ''Best AI Marketing Tools 2025'')\<lparr>virality_score := 5\<rparr>]"
proof -
  have replaced: "ex_both \<in> set (dedup_step default_threshold [ex_tips, ex_tools] ex_both)
     \<and> Suc (count_list (dedup_step default_threshold [ex_tips, ex_tools] ex_both) ex_tips)
         = count_list [ex_tips, ex_tools] ex_tips"
    using dedup_first_match_resolved
            [where thr = default_threshold and topic = ex_both
               and accepted = "[ex_tips, ex_tools]" and existing = ex_tips]
          ex_first_match
    by simp
  have discarded: "dedup_step default_threshold [ex_tools_top, ex_tips] ex_both
                     = [ex_tools_top, ex_tips]"
    using dedup_first_match_resolved
            [where thr = default_threshold and topic = ex_both
               and accepted = "[ex_tools_top, ex_tips]" and existing = ex_tools_top]
          ex_first_match_top
    by simp
  have scenario: "deduplicate_topics [new_Topic None ''AI Marketing Tools for 2025'',
         (new_Topic None ''Best AI Marketing Tools 2025'')\<lparr>virality_score := 5\<rparr>] default_threshold
       = [(new_Topic None ''Best AI Marketing Tools 2025'')\<lparr>virality_score := 5\<rparr>]"
    using dedup_first_match_resolved
            [where a = "new_Topic None ''AI Marketing Tools for 2025''"
               and b = "(new_Topic None ''Best AI Marketing Tools 2025'')\<lparr>virality_score := 5\<rparr>"]
    by (simp add: new_Topic_def)
  show ?thesis
    using replaced discarded scenario ex_first_match ex_first_match_top
    by (simp add: new_Topic_def)
qed

text \<open>
  Claim C4 as stated fails for an accepted topic that is not the first match. With
  \<open>AI marketing tools\<close> (score 20) and \<open>AI marketing tips\<close> (score 0) accepted, the new
  topic \<open>AI marketing tools tips\<close> (score 10) reaches the threshold against both. It is
  compared with the first, does not outscore it and is discarded: of the new topic and
  \<open>AI marketing tips\<close> the lower-scored one survives.
\<close>

theorem dedup_first_match_discards_higher:
  "default_threshold \<le> dedup_overlap ex_both ex_tips
   \<and> virality_score ex_tips < virality_score ex_both
   \<and> dedup_step default_threshold [ex_tools_top, ex_tips] ex_both = [ex_tools_top, ex_tips]
   \<and> deduplicate_topics [ex_tools_top, ex_tips, ex_both] default_threshold
       = [ex_tools_top, ex_tips]"
  by code_simp

text \<open>
  A pass in which no topic scores strictly higher than another never replaces an accepted
  topic: it leaves a list in which no topic reaches the threshold against an earlier one, and
  a second pass returns that list unchanged.
\<close>

lemma dedup_step_no_higher:
  assumes "\<forall>e \<in> set acc. \<not> virality_score e < virality_score t"
  shows "dedup_step thr acc t
           = (if \<exists>e \<in> set acc. thr \<le> dedup_overlap t e then acc else acc @ [t])"
proof (cases "find (\<lambda>e. thr \<le> dedup_overlap t e) acc")
  case None
  then have "\<not> (\<exists>e \<in> set acc. thr \<le> dedup_overlap t e)" by (simp add: find_None_iff)
  then show ?thesis using None by (simp add: dedup_step_find)
next
  case (Some e)
  then have "e \<in> set acc" "thr \<le> dedup_overlap t e"
    by (auto simp: find_Some_iff)
  then show ?thesis using Some assms by (auto simp: dedup_step_find)
qed

lemma dedup_fold_separated:
  assumes "\<forall>a \<in> S. \<forall>b \<in> S. \<not> virality_score a < virality_score b"
    and "set acc \<subseteq> S" "set xs \<subseteq> S"
    and "sorted_wrt (\<lambda>e t. \<not> thr \<le> dedup_overlap t e) acc"
  shows "sorted_wrt (\<lambda>e t. \<not> thr \<le> dedup_overlap t e) (foldl (dedup_step thr) acc xs)
         \<and> set (foldl (dedup_step thr) acc xs) \<subseteq> S"
  using assms(2-4)
proof (induction xs arbitrary: acc)
  case Nil
  then show ?case by simp
next
  case (Cons x xs)
  have "\<forall>e \<in> set acc. \<not> virality_score e < virality_score x"
    using assms(1) Cons.prems(1,2) by auto
  then have step: "dedup_step thr acc x
           = (if \<exists>e \<in> set acc. thr \<le> dedup_overlap x e then acc else acc @ [x])"
    by (rule dedup_step_no_higher)
  have "set (dedup_step thr acc x) \<subseteq> S"
    using Cons.prems(1,2) by (auto simp: step)
  moreover have "sorted_wrt (\<lambda>e t. \<not> thr \<le> dedup_overlap t e) (dedup_step thr acc x)"
    using Cons.prems(3) by (auto simp: step sorted_wrt_append)
  moreover have "set xs \<subseteq> S" using Cons.prems(2) by simp
  ultimately show ?case using Cons.IH [of "dedup_step thr acc x"] by simp
qed

lemma dedup_fold_fixed:
  assumes "\<forall>a \<in> S. \<forall>b \<in> S. \<not> virality_score a < virality_score b"
    and "set acc \<subseteq> S" "set xs \<subseteq> S"
    and "sorted_wrt (\<lambda>e t. \<not> thr \<le> dedup_overlap t e) (acc @ xs)"
  shows "foldl (dedup_step thr) acc xs = acc @ xs"
  using assms(2-4)
proof (induction xs arbitrary: acc)
  case Nil
  then show ?case by simp
next
  case (Cons x xs)
  have "\<forall>e \<in> set acc. \<not> virality_score e < virality_score x"
    using assms(1) Cons.prems(1,2) by auto
  then have "dedup_step thr acc x
           = (if \<exists>e \<in> set acc. thr \<le> dedup_overlap x e then acc else acc @ [x])"
    by (rule dedup_step_no_higher)
  moreover have "\<forall>e \<in> set acc. \<not> thr \<le> dedup_overlap x e"
    using Cons.prems(3) by (simp add: sorted_wrt_append)
  ultimately have step: "dedup_step thr acc x = acc @ [x]" by simp
  have "foldl (dedup_step thr) (acc @ [x]) xs = (acc @ [x]) @ xs"
    using Cons.prems by (intro Cons.IH) simp_all
  then show ?case by (simp add: step)
qed

lemma dedup_idempotent_without_replacement:
  assumes "\<forall>a \<in> set X. \<forall>b \<in> set X. \<not> virality_score a < virality_score b"
  shows "deduplicate_topics (deduplicate_topics X thr) thr = deduplicate_topics X thr"
proof -
  have inv: "sorted_wrt (\<lambda>e t. \<not> thr \<le> dedup_overlap t e) (foldl (dedup_step thr) [] X)
         \<and> set (foldl (dedup_step thr) [] X) \<subseteq> set X"
    using assms by (intro dedup_fold_separated) simp_all
  have "foldl (dedup_step thr) [] (foldl (dedup_step thr) [] X) = [] @ foldl (dedup_step thr) [] X"
    using assms inv by (intro dedup_fold_fixed [where S = "set X"]) simp_all
  then show ?thesis by (simp add: deduplicate_topics_def)
qed

text \<open>
  Claim C3 evaluated on the code. On the batch of these three topics \<open>deduplicate_topics\<close>
  returns two topics whose overlap reaches the threshold, and a second pass removes one of
  them: the function is not idempotent on this batch, where the third topic scores higher
  than the first and replaces it without being compared with the second.
\<close>

theorem dedup_not_idempotent:
  "deduplicate_topics [ex_tools, ex_tips, ex_both] default_threshold = [ex_tips, ex_both]
   \<and> deduplicate_topics (deduplicate_topics [ex_tools, ex_tips, ex_both] default_threshold)
        default_threshold = [ex_both]"
  by code_simp


section \<open>The researcher\<close>

lemma merge_results_Inr:
  "merge_results acc (map Inr xss) = acc @ concat xss"
  by (induction xss arbitrary: acc) simp_all

lemma research_trending_session:
  "research_trending tie self env clk limit categories sources_arg ms
     = (fst (research_trending_run tie self env clk limit categories sources_arg ms),
        self\<lparr>session := Some (last (snd (research_trending_run tie self env clk limit categories sources_arg ms)))\<rparr>)"
  by (simp add: research_trending_def split: prod.splits)

lemma research_trending_discovered:
  "topics_discovered (last (snd (research_trending_run tie self env clk limit categories sources_arg ms)))
     = int (length (merge_results []
         (gather env (fetch_tasks (or_default sources_arg (sources self)) limit))))"
  by (simp add: research_trending_run_def Let_def)

text \<open>
  Claim C5. Let \<open>research_trending\<close> query three sources that all have an adapter. When the
  fetch of exactly one of them raises an exception (an instance of \<open>Exception\<close>) and the
  other two return topics, every task of the gather yields a list, the failing one the empty
  list, so no exception reaches the caller; the run ends with a session, and its
  \<open>topics_discovered\<close> is the sum of the two successful result counts.
\<close>

theorem research_trending_fault_isolation:
  assumes "or_default sources_arg (sources self) = srcs" "length srcs = 3" "i < 3"
    and "\<forall>j<3. get_scraper (srcs ! j) = Some (srcs ! j)"
    and "env (srcs ! i) 50 = Inl (PyException msg)"
    and "\<forall>j<3. j \<noteq> i \<longrightarrow> env (srcs ! j) 50 = Inr (res j)"
  shows "gather env (fetch_tasks srcs limit)
           = map (\<lambda>j. Inr (if j = i then [] else res j)) [0, 1, 2]
     \<and> session (snd (research_trending tie self env clk limit categories sources_arg ms)) \<noteq> None
     \<and> topics_discovered
          (the (session (snd (research_trending tie self env clk limit categories sources_arg ms))))
         = sum_list (map (\<lambda>j. int (length (res j))) (filter (\<lambda>j. j \<noteq> i) [0, 1, 2]))"
proof -
  obtain a b c where srcs: "srcs = [a, b, c]"
    using assms(2) by (auto simp: length_Suc_conv numeral_3_eq_3)
  have one: "fetch_from_source env (srcs ! j) 50 = Inr (if j = i then [] else res j)"
    if "j < 3" for j
    using that assms(4,5,6) by (cases "j = i") (simp_all add: fetch_from_source_def)
  have "fetch_from_source env a 50 = Inr (if 0 = i then [] else res 0)"
    "fetch_from_source env b 50 = Inr (if 1 = i then [] else res 1)"
    "fetch_from_source env c 50 = Inr (if 2 = i then [] else res 2)"
    using one [of 0] one [of 1] one [of 2] by (simp_all add: srcs)
  then have g: "gather env (fetch_tasks srcs limit)
           = map (\<lambda>j. Inr (if j = i then [] else res j)) [0, 1, 2]"
    by (simp add: gather_def fetch_tasks_def srcs)
  have "gather env (fetch_tasks srcs limit)
           = map Inr (map (\<lambda>j. if j = i then [] else res j) [0, 1, 2])"
    unfolding g by simp
  then have "merge_results [] (gather env (fetch_tasks srcs limit))
           = concat (map (\<lambda>j. if j = i then [] else res j) [0, 1, 2])"
    by (simp only: merge_results_Inr append_Nil)
  moreover have "i = 0 \<or> i = 1 \<or> i = 2" using assms(3) by auto
  ultimately have "int (length (merge_results [] (gather env (fetch_tasks srcs limit))))
       = sum_list (map (\<lambda>j. int (length (res j))) (filter (\<lambda>j. j \<noteq> i) [0, 1, 2]))"
    by auto
  then show ?thesis
    using g by (simp add: research_trending_session research_trending_discovered assms(1))
qed

lemma ex_researcher_sources:
  "or_default (Some [REDDIT, HACKER_NEWS, RSS_FEED]) (sources (new_ViralContentResearcher None None))
     = [REDDIT, HACKER_NEWS, RSS_FEED]"
  by (simp add: or_default_def)

theorem research_trending_fault_isolation_witness:
  "ex_env HACKER_NEWS 50 = Inl (PyException ''timeout'')
   \<and> ex_env REDDIT 50 = Inr [ex_short] \<and> ex_env RSS_FEED 50 = Inr [ex_long, ex_engaged]
   \<and> topics_discovered (the (session (snd (research_trending ex_tie (new_ViralContentResearcher None None)
          ex_env ex_clock 25 None (Some [REDDIT, HACKER_NEWS, RSS_FEED]) 30)))) = 3"
proof -
  have a: "\<forall>j<3. get_scraper ([REDDIT, HACKER_NEWS, RSS_FEED] ! j) = Some ([REDDIT, HACKER_NEWS, RSS_FEED] ! j)"
    by (simp add: get_scraper_def numeral_3_eq_3 All_less_Suc)
  have b: "ex_env ([REDDIT, HACKER_NEWS, RSS_FEED] ! 1) 50 = Inl (PyException ''timeout'')"
    by (simp add: ex_env_def)
  have c: "\<forall>j<3. j \<noteq> 1 \<longrightarrow> ex_env ([REDDIT, HACKER_NEWS, RSS_FEED] ! j) 50
               = Inr ((\<lambda>j. if j = 0 then [ex_short] else [ex_long, ex_engaged]) j)"
    by (simp add: ex_env_def numeral_3_eq_3 All_less_Suc)
  have "topics_discovered (the (session (snd (research_trending ex_tie (new_ViralContentResearcher None None)
          ex_env ex_clock 25 None (Some [REDDIT, HACKER_NEWS, RSS_FEED]) 30))))
        = sum_list (map (\<lambda>j. int (length (if j = 0 then [ex_short] else [ex_long, ex_engaged])))
            (filter (\<lambda>j. j \<noteq> 1) [0::nat, 1, 2]))"
    using research_trending_fault_isolation
      [where tie = ex_tie and i = 1 and env = ex_env and srcs = "[REDDIT, HACKER_NEWS, RSS_FEED]"
         and res = "\<lambda>j. if j = 0 then [ex_short] else [ex_long, ex_engaged]"
         and msg = "''timeout''" and self = "new_ViralContentResearcher None None"
         and sources_arg = "Some [REDDIT, HACKER_NEWS, RSS_FEED]"
         and clk = ex_clock and limit = 25 and categories = None and ms = 30,
       OF ex_researcher_sources _ _ a b c]
    by simp
  then show ?thesis by (simp add: ex_env_def)
qed


text \<open>
  Claim C8, as amended. Whatever the final limit \<open>n\<close> of \<open>research_trending\<close> is, each
  fetch task requests exactly 50 items: the result of the run is computed from the outcomes
  of \<open>_fetch_from_source\<close> with limit 50 alone. The request exceeds the final limit only
  when the final limit is below 50.
\<close>

theorem fetch_tasks_request_fifty:
  "map snd (fetch_tasks srcs n) = replicate (length srcs) 50
   \<and> gather env (fetch_tasks srcs n) = map (\<lambda>src. fetch_from_source env src 50) srcs
   \<and> fst (research_trending_run tie self env clk n categories sources_arg ms)
       = curate_topics tie (curator self) (t_curate clk)
           (deduplicate_topics
              (merge_results [] (map (\<lambda>src. fetch_from_source env src 50)
                                   (or_default sources_arg (sources self))))
              default_threshold)
           n categories (Some ms)"
proof -
  have a: "map snd (fetch_tasks srcs n) = replicate (length srcs) 50" for srcs
    by (induction srcs) (simp_all add: fetch_tasks_def)
  have b: "gather env (fetch_tasks srcs n) = map (\<lambda>src. fetch_from_source env src 50) srcs" for srcs
    by (simp add: gather_def fetch_tasks_def comp_def)
  show ?thesis
    using a [of srcs] b by (simp add: research_trending_run_def Let_def)
qed

text \<open>
  Claim C8 as stated fails for a final limit of 100, the limit \<open>research_category\<close> and
  \<open>get_marketing_insights\<close> pass to \<open>research_trending\<close>: each of the four default sources
  is asked for 50 items, which is not more than 100.
\<close>

theorem fetch_limit_below_final_limit:
  "fetch_tasks (or_default None (sources (new_ViralContentResearcher None None))) 100
     = [(REDDIT, 50), (HACKER_NEWS, 50), (RSS_FEED, 50), (PRODUCT_HUNT, 50)]
   \<and> \<not> (100 < (50::int))"
  by (simp add: fetch_tasks_def or_default_def new_ViralContentResearcher_def)


text \<open>
  Claim C9, as amended. \<open>research_trending\<close> creates a fresh session first and leaves it
  in the researcher. The session is written in this order: \<open>topics_discovered\<close> receives
  the length of the merged list, before deduplication; \<open>topics_curated\<close> receives the
  length of the curated list; \<open>completed_at\<close> is set last, and is unset before that.
  \<open>search\<close> creates no session: the researcher it returns is the one it was given.
\<close>

theorem session_lifecycle:
  "snd (research_trending tie self env clk limit categories sources_arg ms)
     = self\<lparr>session := Some (last (snd (research_trending_run tie self env clk limit categories sources_arg ms)))\<rparr>
   \<and> length (snd (research_trending_run tie self env clk limit categories sources_arg ms)) = 4
   \<and> hd (snd (research_trending_run tie self env clk limit categories sources_arg ms))
       = new_ResearchSession (t_start clk) (or_default sources_arg (sources self))
           (or_default categories [], ms)
   \<and> map topics_discovered (snd (research_trending_run tie self env clk limit categories sources_arg ms))
       = [0,
          int (length (merge_results [] (gather env (fetch_tasks (or_default sources_arg (sources self)) limit)))),
          int (length (merge_results [] (gather env (fetch_tasks (or_default sources_arg (sources self)) limit)))),
          int (length (merge_results [] (gather env (fetch_tasks (or_default sources_arg (sources self)) limit))))]
   \<and> map topics_curated (snd (research_trending_run tie self env clk limit categories sources_arg ms))
       = [0, 0,
          int (length (fst (research_trending tie self env clk limit categories sources_arg ms))),
          int (length (fst (research_trending tie self env clk limit categories sources_arg ms)))]
   \<and> map completed_at (snd (research_trending_run tie self env clk limit categories sources_arg ms))
       = [None, None, None, Some (t_end clk)]
   \<and> (search tie self senv now query n srcs = Inr (found, self') \<longrightarrow> self' = self)"
proof -
  have "self' = self" if "search tie self senv now query n srcs = Inr (found, self')"
    using that by (auto simp: search_def Let_def split: sum.splits)
  then show ?thesis
    by (simp add: research_trending_session research_trending_run_def Let_def
        new_ResearchSession_def)
qed

lemma ex_search:
  "search ex_tie (new_ViralContentResearcher None None) ex_search_env 0 ''ai'' 25 None
     = Inr ([ex_short\<lparr>virality_score := 42\<rparr>], new_ViralContentResearcher None None)"
  by code_simp

theorem session_lifecycle_witness:
  "search ex_tie (new_ViralContentResearcher None None) ex_search_env 0 ''ai'' 25 None
     = Inr ([ex_short\<lparr>virality_score := 42\<rparr>], new_ViralContentResearcher None None)
   \<and> map completed_at (snd (research_trending_run ex_tie (new_ViralContentResearcher None None)
         ex_dup_env ex_clock 25 None None 30)) = [None, None, None, Some 2]"
  using session_lifecycle [of ex_tie "new_ViralContentResearcher None None" ex_dup_env ex_clock 25 None None 30
          ex_search_env 0 "''ai''" 25 None "[ex_short\<lparr>virality_score := 42\<rparr>]"
          "new_ViralContentResearcher None None"]
        ex_search
  by (simp add: ex_clock_def)

text \<open>
  Claim C9 as stated fails twice. A search on a new researcher succeeds and leaves the
  researcher without a session. A trending run whose only source returns two topics with the
  same title records 2 discovered topics, while deduplication keeps 1.
\<close>

theorem search_keeps_no_session:
  "search ex_tie (new_ViralContentResearcher None None) ex_search_env 0 ''ai'' 25 None
     = Inr ([ex_short\<lparr>virality_score := 42\<rparr>], new_ViralContentResearcher None None)
   \<and> session (new_ViralContentResearcher None None) = None
   \<and> topics_discovered (the (session (snd (research_trending ex_tie (new_ViralContentResearcher None None)
         ex_dup_env ex_clock 25 None None 30)))) = 2
   \<and> length (deduplicate_topics [ex_short, ex_anon] default_threshold) = 1"
  by code_simp

end
